theory Spec2Isabelle
  imports Complex_Main
begin

section \<open>Data model (src/lib/types/middleman.ts)\<close>

text \<open>
  The solver of src/lib/utils/middleman.ts is embedded function by function.
  A JavaScript \<open>number\<close> is modelled as a \<^typ>\<open>real\<close>: arithmetic is exact, and
  \<open>NaN\<close>, the infinities and rounding are outside the model (the one place where the
  source stores \<open>-Infinity\<close>, the running maximum of the initial builder, is an
  \<open>option\<close> here). Arrays are lists, objects are records, a thrown \<open>Error\<close> is the
  left summand of the result. Supplier and Customer both have fields \<open>id\<close> and
  \<open>name\<close> in the source; the record fields carry the owner's name in front,
  as does \<open>supply\<close>, which is a keyword of the proof language.
\<close>

record Supplier =
  supplier_id :: string
  supplier_name :: string
  supplier_supply :: real
  purchaseCost :: real

record Customer =
  customer_id :: string
  customer_name :: string
  demand :: real
  sellingPrice :: real

record TransportationCost =
  tc_supplierId :: string
  tc_customerId :: string
  cost :: real

text \<open>
  \<open>validateTransportationCosts\<close> takes \<open>costs: any\<close> and tells three shapes apart:
  null or undefined, a matrix whose first entry is a number, and a matrix of
  \<open>TransportationCost\<close> objects (the declared type of \<open>problem.transportationCosts\<close>).
\<close>

datatype costs_input =
    CostsMissing
  | NumberMatrix "real list list"
  | ObjectMatrix "TransportationCost list list"

record MiddlemanProblem =
  suppliers :: "Supplier list"
  customers :: "Customer list"
  transportationCosts :: costs_input

record BalancedProblem =
  bp_suppliers :: "Supplier list"
  bp_customers :: "Customer list"
  bp_isBalanced :: bool
  fictitiousSupplier :: "Supplier option"
  fictitiousCustomer :: "Customer option"
  originalSupplyTotal :: real
  originalDemandTotal :: real

section \<open>Matrices\<close>

text \<open>
  \<open>M[i]?.[j] || 0\<close>: the entry, and 0 where the row or the entry is missing
  (for a number \<open>x\<close> other than NaN, \<open>x || 0\<close> is \<open>x\<close>).
\<close>

definition entryOrZero :: "real list list \<Rightarrow> nat \<Rightarrow> nat \<Rightarrow> real" where
  "entryOrZero M i j = (if i < length M \<and> j < length (M ! i) then M ! i ! j else 0)"

text \<open>\<open>Array(m).fill(0).map(() => Array(n).fill(0))\<close>\<close>

definition zeroMatrix :: "nat \<Rightarrow> nat \<Rightarrow> real list list" where
  "zeroMatrix m n = replicate m (replicate n 0)"

text \<open>The cells of an \<open>m\<close> by \<open>n\<close> matrix in the order of the nested
  \<open>for i\<close>, \<open>for j\<close> loops.\<close>

definition cells :: "nat \<Rightarrow> nat \<Rightarrow> (nat \<times> nat) list" where
  "cells m n = concat (map (\<lambda>i. map (\<lambda>j. (i, j)) [0..<n]) [0..<m])"

text \<open>A matrix with \<open>m\<close> rows of \<open>n\<close> entries each.\<close>

definition shaped :: "nat \<Rightarrow> nat \<Rightarrow> 'a list list \<Rightarrow> bool" where
  "shaped m n M = (length M = m \<and> list_all (\<lambda>row. length row = n) M)"

section \<open>validateTransportationCosts\<close>

text \<open>
  The result always has \<open>supplierCount\<close> rows of \<open>customerCount\<close> entries. An input
  is read only when it is a non-empty array whose first row is a non-empty array;
  cell \<open>(i, j)\<close> is then copied where the input has it and is 0 elsewhere.
\<close>

definition validateTransportationCosts ::
  "costs_input \<Rightarrow> nat \<Rightarrow> nat \<Rightarrow> real list list" where
  "validateTransportationCosts costs supplierCount customerCount =
     (case costs of
        CostsMissing \<Rightarrow> zeroMatrix supplierCount customerCount
      | NumberMatrix M \<Rightarrow>
          if M \<noteq> [] \<and> hd M \<noteq> []
          then map (\<lambda>i. map (\<lambda>j. entryOrZero M i j) [0..<customerCount]) [0..<supplierCount]
          else zeroMatrix supplierCount customerCount
      | ObjectMatrix M \<Rightarrow>
          if M \<noteq> [] \<and> hd M \<noteq> []
          then map (\<lambda>i. map (\<lambda>j. if i < length M \<and> j < length (M ! i)
                                    then cost (M ! i ! j) else 0)
                              [0..<customerCount]) [0..<supplierCount]
          else zeroMatrix supplierCount customerCount)"

section \<open>calculateProfitMatrix\<close>

text \<open>
  \<open>profitMatrix[i][j] = sellingPrice - purchaseCost - transportationCost\<close> for
  \<open>i < suppliers.length\<close>, \<open>j < customers.length\<close>; the two list reads are in range
  and the cost read is \<open>transportationCosts[i]?.[j] || 0\<close>.
\<close>

definition calculateProfitMatrix ::
  "Supplier list \<Rightarrow> Customer list \<Rightarrow> real list list \<Rightarrow> real list list" where
  "calculateProfitMatrix ss cs tcosts =
     map (\<lambda>i. map (\<lambda>j. sellingPrice (cs ! j) - purchaseCost (ss ! i) - entryOrZero tcosts i j)
                [0..<length cs])
         [0..<length ss]"

section \<open>balanceProblem\<close>

text \<open>\<open>xs.reduce((sum, x) => sum + f(x), 0)\<close>\<close>

definition reduceSum :: "('a \<Rightarrow> real) \<Rightarrow> 'a list \<Rightarrow> real" where
  "reduceSum f xs = foldl (\<lambda>sum x. sum + f x) 0 xs"

definition fictitiousCustomerOf :: "real \<Rightarrow> Customer" where
  "fictitiousCustomerOf excessSupply =
     \<lparr>customer_id = ''fictitious-customer'', customer_name = ''Fictitious Customer'',
      demand = excessSupply, sellingPrice = 0\<rparr>"

definition fictitiousSupplierOf :: "real \<Rightarrow> Supplier" where
  "fictitiousSupplierOf excessDemand =
     \<lparr>supplier_id = ''fictitious-supplier'', supplier_name = ''Fictitious Supplier'',
      supplier_supply = excessDemand, purchaseCost = 0\<rparr>"

definition balanceProblem :: "Supplier list \<Rightarrow> Customer list \<Rightarrow> BalancedProblem" where
  "balanceProblem ss cs =
     (let totalSupply = reduceSum supplier_supply ss;
          totalDemand = reduceSum demand cs
      in if totalSupply > totalDemand then
           \<lparr>bp_suppliers = ss,
            bp_customers = cs @ [fictitiousCustomerOf (totalSupply - totalDemand)],
            bp_isBalanced = (totalSupply = totalDemand),
            fictitiousSupplier = None,
            fictitiousCustomer = Some (fictitiousCustomerOf (totalSupply - totalDemand)),
            originalSupplyTotal = totalSupply,
            originalDemandTotal = totalDemand\<rparr>
         else if totalDemand > totalSupply then
           \<lparr>bp_suppliers = ss @ [fictitiousSupplierOf (totalDemand - totalSupply)],
            bp_customers = cs,
            bp_isBalanced = (totalSupply = totalDemand),
            fictitiousSupplier = Some (fictitiousSupplierOf (totalDemand - totalSupply)),
            fictitiousCustomer = None,
            originalSupplyTotal = totalSupply,
            originalDemandTotal = totalDemand\<rparr>
         else
           \<lparr>bp_suppliers = ss,
            bp_customers = cs,
            bp_isBalanced = (totalSupply = totalDemand),
            fictitiousSupplier = None,
            fictitiousCustomer = None,
            originalSupplyTotal = totalSupply,
            originalDemandTotal = totalDemand\<rparr>)"

section \<open>findOptimalTransportation (Maximum Element Method)\<close>

text \<open>
  The matrices that the functions below read with \<open>M[i][j]\<close> are the profit matrix and
  the transportation plan. Both have one row per supplier and one entry per customer
  in every run of the solver (\<open>calculateProfitMatrix\<close> and the initial builder make them
  so), and the model reads them with \<open>!\<close>; a matrix of another shape, on which the source
  would read \<open>undefined\<close> or raise a TypeError, is outside the model, and the theorems
  about these functions state the shape they need.

  The scan for the maximum keeps \<open>maxProfit\<close>, \<open>maxI\<close> and \<open>maxJ\<close>, which are assigned
  together: \<open>None\<close> stands for the initial \<open>-Infinity, -1, -1\<close>, and every number is
  greater than \<open>-Infinity\<close>.
\<close>

definition scanCell ::
  "real list list \<Rightarrow> real list \<Rightarrow> real list \<Rightarrow> nat \<times> nat \<Rightarrow>
   (real \<times> nat \<times> nat) option \<Rightarrow> (real \<times> nat \<times> nat) option" where
  "scanCell Z rs rd c best =
     (case c of (i, j) \<Rightarrow>
        if rs ! i > 0 \<and> rd ! j > 0 then
          (case best of
             None \<Rightarrow> Some (Z ! i ! j, i, j)
           | Some (maxProfit, maxI, maxJ) \<Rightarrow>
               if Z ! i ! j > maxProfit then Some (Z ! i ! j, i, j) else best)
        else best)"

definition findMaxCell ::
  "real list list \<Rightarrow> real list \<Rightarrow> real list \<Rightarrow> (real \<times> nat \<times> nat) option" where
  "findMaxCell Z rs rd = fold (scanCell Z rs rd) (cells (length rs) (length rd)) None"

lemma set_cells: "set (cells m n) = {0..<m} \<times> {0..<n}"
  by (auto simp: cells_def)

lemma fold_scanCell_Some:
  "fold (scanCell Z rs rd) cs best = Some (v, i, j) \<Longrightarrow>
   best = Some (v, i, j) \<or> ((i, j) \<in> set cs \<and> rs ! i > 0 \<and> rd ! j > 0 \<and> v = Z ! i ! j)"
proof (induction cs arbitrary: best)
  case Nil
  then show ?case by simp
next
  case (Cons c cs)
  from Cons.prems have "fold (scanCell Z rs rd) cs (scanCell Z rs rd c best) = Some (v, i, j)"
    by simp
  from Cons.IH [OF this] show ?case
    by (auto simp: scanCell_def split: prod.splits if_splits option.splits)
qed

lemma findMaxCell_Some:
  assumes "findMaxCell Z rs rd = Some (v, i, j)"
  shows "i < length rs \<and> j < length rd \<and> rs ! i > 0 \<and> rd ! j > 0 \<and> v = Z ! i ! j"
  using fold_scanCell_Some [OF assms [unfolded findMaxCell_def]]
  by (auto simp: set_cells)

text \<open>The number of entries that are still positive.\<close>

definition positives :: "real list \<Rightarrow> nat" where
  "positives xs = length (filter (\<lambda>x. x > 0) xs)"

lemma positives_update:
  "i < length xs \<Longrightarrow>
   positives (xs[i := y]) + (if xs ! i > 0 then 1 else 0) = positives xs + (if y > 0 then 1 else 0)"
proof (induction xs arbitrary: i)
  case Nil
  then show ?case by simp
next
  case (Cons x xs)
  show ?case
  proof (cases i)
    case 0
    then show ?thesis by (simp add: positives_def)
  next
    case (Suc k)
    with Cons.prems have "k < length xs" by simp
    from Cons.IH [OF this] Suc show ?thesis by (simp add: positives_def)
  qed
qed

lemma allocation_decreases:
  assumes "i < length rs" "j < length rd" "rs ! i > 0" "rd ! j > 0"
  shows "positives (rs[i := rs ! i - min (rs ! i) (rd ! j)]) +
         positives (rd[j := rd ! j - min (rs ! i) (rd ! j)]) < positives rs + positives rd"
  using positives_update [OF assms(1), of "rs ! i - min (rs ! i) (rd ! j)"]
        positives_update [OF assms(2), of "rd ! j - min (rs ! i) (rd ! j)"] assms(3,4)
  by (auto simp: min_def split: if_splits)

text \<open>
  The \<open>while\<close> loop of the builder. Its state is the plan, the remaining supply and
  demand, and the step counter (which the source only logs). A pass that finds no
  cell leaves through the \<open>break\<close>.
\<close>

function memLoop ::
  "real list list \<Rightarrow> real list list \<times> real list \<times> real list \<times> nat \<Rightarrow> real list list \<times> nat" where
  "memLoop Z (plan, rs, rd, allocationStep) =
     (if (\<exists>s \<in> set rs. s > 0) \<and> (\<exists>d \<in> set rd. d > 0) then
        (case findMaxCell Z rs rd of
           None \<Rightarrow> (plan, allocationStep)
         | Some (maxProfit, maxI, maxJ) \<Rightarrow>
             memLoop Z (plan[maxI := (plan ! maxI)[maxJ := min (rs ! maxI) (rd ! maxJ)]],
                        rs[maxI := rs ! maxI - min (rs ! maxI) (rd ! maxJ)],
                        rd[maxJ := rd ! maxJ - min (rs ! maxI) (rd ! maxJ)],
                        allocationStep + 1))
      else (plan, allocationStep))"
  by pat_completeness auto
termination
  apply (relation "measure (\<lambda>(Z, plan, rs, rd, k). positives rs + positives rd)")
   apply simp
  apply clarsimp
  apply (drule findMaxCell_Some)
  apply (use allocation_decreases in auto)
  done

definition findOptimalTransportationRun ::
  "real list list \<Rightarrow> Supplier list \<Rightarrow> Customer list \<Rightarrow> real list list \<times> nat" where
  "findOptimalTransportationRun Z ss cs =
     memLoop Z (zeroMatrix (length ss) (length cs), map supplier_supply ss, map demand cs, 0)"

definition findOptimalTransportation ::
  "real list list \<Rightarrow> Supplier list \<Rightarrow> Customer list \<Rightarrow> real list list" where
  "findOptimalTransportation Z ss cs = fst (findOptimalTransportationRun Z ss cs)"

section \<open>calculateDualVariables\<close>

record DualVariables =
  alpha :: "real list"
  beta :: "real list"

text \<open>The basic variables: the cells with \<open>transportationPlan[i][j] > 0\<close>, in scan order.\<close>

definition basicVariablesOf :: "real list list \<Rightarrow> nat \<Rightarrow> nat \<Rightarrow> (nat \<times> nat) list" where
  "basicVariablesOf plan m n = filter (\<lambda>(i, j). plan ! i ! j > 0) (cells m n)"

text \<open>
  One basic variable of the \<open>for (const {i, j} of basicVariables)\<close> loop. The
  potentials are \<open>real option\<close>: \<open>None\<close> is the source's \<open>null\<close>.
\<close>

definition dualStep ::
  "real list list \<Rightarrow> nat \<times> nat \<Rightarrow> real option list \<times> real option list \<times> bool \<Rightarrow>
   real option list \<times> real option list \<times> bool" where
  "dualStep Z bv st =
     (case bv of (i, j) \<Rightarrow>
      case st of (al, be, changed) \<Rightarrow>
        (case (al ! i, be ! j) of
           (Some a, None) \<Rightarrow> (al, be[j := Some (Z ! i ! j - a)], True)
         | (None, Some b) \<Rightarrow> (al[i := Some (Z ! i ! j - b)], be, True)
         | _ \<Rightarrow> (al, be, changed)))"

text \<open>\<open>while (changed && iteration < maxIterations)\<close> with \<open>maxIterations = 50\<close>.\<close>

function dualLoop ::
  "real list list \<Rightarrow> (nat \<times> nat) list \<Rightarrow> real option list \<times> real option list \<Rightarrow> bool \<Rightarrow> nat \<Rightarrow>
   real option list \<times> real option list" where
  "dualLoop Z bvs ab changed iteration =
     (if changed \<and> iteration < 50 then
        (case fold (dualStep Z) bvs (fst ab, snd ab, False) of
           (al, be, changed') \<Rightarrow> dualLoop Z bvs (al, be) changed' (iteration + 1))
      else ab)"
  by pat_completeness auto
termination
  by (relation "measure (\<lambda>(Z, bvs, ab, changed, iteration). 50 - iteration)") auto

definition nullToZero :: "real option \<Rightarrow> real" where
  "nullToZero x = (case x of None \<Rightarrow> 0 | Some v \<Rightarrow> v)"

definition calculateDualVariables ::
  "real list list \<Rightarrow> real list list \<Rightarrow> nat \<Rightarrow> nat \<Rightarrow> DualVariables" where
  "calculateDualVariables Z plan m n =
     (let basicVariables = basicVariablesOf plan m n in
      case find (\<lambda>i. \<exists>bv \<in> set basicVariables. fst bv = i) [0..<m] of
        None \<Rightarrow> \<lparr>alpha = replicate m 0, beta = replicate n 0\<rparr>
      | Some i0 \<Rightarrow>
          (case dualLoop Z basicVariables ((replicate m None)[i0 := Some 0], replicate n None) True 0 of
             (al, be) \<Rightarrow> \<lparr>alpha = map nullToZero al, beta = map nullToZero be\<rparr>))"

section \<open>checkOptimality\<close>

record ImprovementOpportunity =
  supplierIndex :: nat
  customerIndex :: nat
  improvement :: real
  currentProfit :: real
  potentialProfit :: real

record OptimalityCheck =
  oc_isOptimal :: bool
  improvements :: "ImprovementOpportunity list"

definition epsilon :: real where
  "epsilon = 1 / 1000"

text \<open>The opportunity pushed for cell \<open>(i, j)\<close>, if any.\<close>

definition opportunityAt ::
  "real list list \<Rightarrow> real list list \<Rightarrow> DualVariables \<Rightarrow> nat \<times> nat \<Rightarrow> ImprovementOpportunity list" where
  "opportunityAt Z plan dv c =
     (case c of (i, j) \<Rightarrow>
        if plan ! i ! j \<le> epsilon then
          (let opportunityCost = Z ! i ! j - alpha dv ! i - beta dv ! j in
           if opportunityCost > epsilon then
             [\<lparr>supplierIndex = i, customerIndex = j, improvement = opportunityCost,
               currentProfit = 0, potentialProfit = Z ! i ! j\<rparr>]
           else [])
        else [])"

text \<open>
  \<open>improvements.sort((a, b) => b.improvement - a.improvement)\<close>: a stable sort,
  highest improvement first; \<open>sort_key\<close> is an insertion sort and stable.
\<close>

definition checkOptimality ::
  "real list list \<Rightarrow> real list list \<Rightarrow> Supplier list \<Rightarrow> Customer list \<Rightarrow> OptimalityCheck" where
  "checkOptimality Z plan ss cs =
     (let m = length ss; n = length cs;
          dualVariables = calculateDualVariables Z plan m n;
          found = concat (map (opportunityAt Z plan dualVariables) (cells m n));
          sorted = sort_key (\<lambda>opp. - improvement opp) found
      in \<lparr>oc_isOptimal = (sorted = []), improvements = sorted\<rparr>)"

section \<open>arraysEqual\<close>

definition arraysEqual :: "real list list \<Rightarrow> real list list \<Rightarrow> bool" where
  "arraysEqual a b =
     (if length a \<noteq> length b then False
      else list_all (\<lambda>i. length (a ! i) = length (b ! i) \<and>
                          list_all (\<lambda>j. \<not> \<bar>a ! i ! j - b ! i ! j\<bar> > 1 / 1000) [0..<length (a ! i)])
                    [0..<length a])"

section \<open>improveSolution\<close>

text \<open>\<open>M[i][j] += d\<close> on a copy of the matrix.\<close>

definition addAt :: "real list list \<Rightarrow> nat \<Rightarrow> nat \<Rightarrow> real \<Rightarrow> real list list" where
  "addAt M i j d = M[i := (M ! i)[j := M ! i ! j + d]]"

text \<open>
  Each of the two reallocation scans changes the plan only in the pass that breaks,
  so the scan is the search for the first \<open>k\<close> that passes both tests.
\<close>

definition improveSolution ::
  "real list list \<Rightarrow> ImprovementOpportunity \<Rightarrow> Supplier list \<Rightarrow> Customer list \<Rightarrow> real list list" where
  "improveSolution plan opp ss cs =
     (let i = supplierIndex opp; j = customerIndex opp;
          currentSupplyUsed = reduceSum (\<lambda>val. val) (plan ! i);
          currentDemandMet = reduceSum (\<lambda>row. row ! j) plan;
          availableSupply = supplier_supply (ss ! i) - currentSupplyUsed;
          unmetDemand = demand (cs ! j) - currentDemandMet;
          maxNewAllocation = min availableSupply unmetDemand
      in if maxNewAllocation > 0 then addAt plan i j maxNewAllocation
         else
           (case find (\<lambda>k. k \<noteq> j \<and> plan ! i ! k > 0 \<and>
                            min (min (plan ! i ! k) unmetDemand) 1 > 0) [0..<length cs] of
              Some k \<Rightarrow>
                (let canReduce = min (min (plan ! i ! k) unmetDemand) 1
                 in addAt (addAt plan i k (- canReduce)) i j canReduce)
            | None \<Rightarrow>
                (case find (\<lambda>k. k \<noteq> i \<and> plan ! k ! j > 0 \<and>
                                 min (min (plan ! k ! j) availableSupply) 1 > 0) [0..<length ss] of
                   Some k \<Rightarrow>
                     (let canReduce = min (min (plan ! k ! j) availableSupply) 1
                      in addAt (addAt plan k j (- canReduce)) i j canReduce)
                 | None \<Rightarrow> plan)))"

section \<open>The iteration loop of solveMiddlemanProblem\<close>

text \<open>
  \<open>stop\<close> names the exit through which the controller is left; the source reports it
  in its log only. \<open>loopPass\<close> is one pass of the body of the \<open>while\<close> loop: it breaks,
  or it falls through to \<open>iterations++\<close> with the plan and the flag it has set.
\<close>

datatype stop = InitialOptimal | LoopOptimal | NoPlanChange | NoImprovements | IterationCap

datatype pass = Break stop | Next "real list list" bool

definition loopPass ::
  "real list list \<Rightarrow> Supplier list \<Rightarrow> Customer list \<Rightarrow> real list list \<Rightarrow> pass" where
  "loopPass Z ss cs plan =
     (let optimalityCheck = checkOptimality Z plan ss cs;
          isOpt = oc_isOptimal optimalityCheck
      in if \<not> isOpt \<and> improvements optimalityCheck \<noteq> [] then
           (let newPlan = improveSolution plan (hd (improvements optimalityCheck)) ss cs
            in if arraysEqual plan newPlan then Break NoPlanChange else Next newPlan isOpt)
         else if \<not> isOpt then Break NoImprovements
         else Next plan isOpt)"

definition maxIterations :: nat where
  "maxIterations = 20"

function improveLoop ::
  "real list list \<Rightarrow> Supplier list \<Rightarrow> Customer list \<Rightarrow> real list list \<Rightarrow> nat \<Rightarrow> bool \<Rightarrow>
   real list list \<times> nat \<times> bool \<times> stop" where
  "improveLoop Z ss cs plan iterations isOpt =
     (if \<not> isOpt \<and> iterations < maxIterations then
        (case loopPass Z ss cs plan of
           Break why \<Rightarrow> (plan, iterations, False, why)
         | Next plan' isOpt' \<Rightarrow> improveLoop Z ss cs plan' (iterations + 1) isOpt')
      else (plan, iterations, isOpt, if isOpt then LoopOptimal else IterationCap))"
  by pat_completeness auto
termination
  by (relation "measure (\<lambda>(Z, ss, cs, plan, iterations, isOpt). maxIterations - iterations)") auto

text \<open>Steps 6 of the solver: the initial check, then the loop if the check fails.\<close>

definition optimize ::
  "real list list \<Rightarrow> Supplier list \<Rightarrow> Customer list \<Rightarrow> real list list \<Rightarrow>
   real list list \<times> nat \<times> bool \<times> stop" where
  "optimize Z ss cs plan0 =
     (if oc_isOptimal (checkOptimality Z plan0 ss cs) then (plan0, 0, True, InitialOptimal)
      else improveLoop Z ss cs plan0 0 False)"

section \<open>calculateResults and createOptimalRoutes\<close>

record Results =
  totalPurchaseCost :: real
  totalTransportationCost :: real
  totalRevenue :: real
  totalProfit :: real

record TransportationCell =
  route_supplierId :: string
  route_customerId :: string
  quantity :: real
  unitProfit :: real
  route_purchaseCost :: real
  route_transportationCost :: real
  route_sellingPrice :: real

definition isFictitiousCustomer :: "Customer \<Rightarrow> bool" where
  "isFictitiousCustomer customer = (customer_id customer = ''fictitious-customer'')"

definition isFictitiousSupplier :: "Supplier \<Rightarrow> bool" where
  "isFictitiousSupplier supplier = (supplier_id supplier = ''fictitious-supplier'')"

text \<open>
  The body of the nested loops of \<open>calculateResults\<close> at cell \<open>(i, j)\<close>, on the three
  running totals (purchase cost, transportation cost, revenue).
\<close>

definition resultsCell ::
  "real list list \<Rightarrow> Supplier list \<Rightarrow> Customer list \<Rightarrow> real list list \<Rightarrow> nat \<times> nat \<Rightarrow>
   real \<times> real \<times> real \<Rightarrow> real \<times> real \<times> real" where
  "resultsCell plan ss cs validatedCosts c acc =
     (case c of (i, j) \<Rightarrow>
      case acc of (purchase, transport, revenue) \<Rightarrow>
        (let qty = entryOrZero plan i j in
         if qty > 0 then
           (let real_route = \<not> isFictitiousCustomer (cs ! j) \<and> \<not> isFictitiousSupplier (ss ! i)
            in (if real_route then purchase + qty * purchaseCost (ss ! i) else purchase,
                if real_route then transport + qty * entryOrZero validatedCosts i j else transport,
                if \<not> isFictitiousCustomer (cs ! j) then revenue + qty * sellingPrice (cs ! j)
                else revenue))
         else acc))"

definition calculateResults ::
  "real list list \<Rightarrow> Supplier list \<Rightarrow> Customer list \<Rightarrow> real list list \<Rightarrow> Results" where
  "calculateResults plan ss cs tcosts =
     (let validatedCosts = validateTransportationCosts (NumberMatrix tcosts) (length ss) (length cs)
      in case fold (resultsCell plan ss cs validatedCosts) (cells (length ss) (length cs)) (0, 0, 0) of
           (purchase, transport, revenue) \<Rightarrow>
             \<lparr>totalPurchaseCost = purchase, totalTransportationCost = transport,
              totalRevenue = revenue, totalProfit = revenue - purchase - transport\<rparr>)"

text \<open>The route pushed for cell \<open>(i, j)\<close>, if any.\<close>

definition routeAt ::
  "real list list \<Rightarrow> Supplier list \<Rightarrow> Customer list \<Rightarrow> real list list \<Rightarrow> real list list \<Rightarrow>
   nat \<times> nat \<Rightarrow> TransportationCell list" where
  "routeAt plan ss cs validatedCosts Z c =
     (case c of (i, j) \<Rightarrow>
        (let qty = entryOrZero plan i j in
         if qty > 0 \<and> \<not> isFictitiousCustomer (cs ! j) \<and> \<not> isFictitiousSupplier (ss ! i) then
           [\<lparr>route_supplierId = supplier_id (ss ! i), route_customerId = customer_id (cs ! j),
             quantity = qty, unitProfit = entryOrZero Z i j,
             route_purchaseCost = purchaseCost (ss ! i),
             route_transportationCost = entryOrZero validatedCosts i j,
             route_sellingPrice = sellingPrice (cs ! j)\<rparr>]
         else []))"

definition createOptimalRoutes ::
  "real list list \<Rightarrow> Supplier list \<Rightarrow> Customer list \<Rightarrow> real list list \<Rightarrow> real list list \<Rightarrow>
   TransportationCell list" where
  "createOptimalRoutes plan ss cs tcosts Z =
     (let validatedCosts = validateTransportationCosts (NumberMatrix tcosts) (length ss) (length cs)
      in concat (map (routeAt plan ss cs validatedCosts Z) (cells (length ss) (length cs))))"

section \<open>validateProblem\<close>

record ValidationResult =
  isValid :: bool
  errors :: "string list"
  warnings :: "string list"

definition supplierErrors :: "Supplier \<Rightarrow> string list" where
  "supplierErrors supplier =
     (if supplier_supply supplier \<le> 0
      then [''Supplier '' @ supplier_name supplier @ '' must have positive supply''] else []) @
     (if purchaseCost supplier < 0
      then [''Supplier '' @ supplier_name supplier @ '' cannot have negative purchase cost'']
      else [])"

definition customerErrors :: "Customer \<Rightarrow> string list" where
  "customerErrors customer =
     (if demand customer \<le> 0
      then [''Customer '' @ customer_name customer @ '' must have positive demand''] else []) @
     (if sellingPrice customer < 0
      then [''Customer '' @ customer_name customer @ '' cannot have negative selling price'']
      else [])"

definition validateProblem :: "MiddlemanProblem \<Rightarrow> ValidationResult" where
  "validateProblem problem =
     (let errs =
            (if suppliers problem = [] then [''Problem must have at least one supplier'']
             else concat (map supplierErrors (suppliers problem))) @
            (if customers problem = [] then [''Problem must have at least one customer'']
             else concat (map customerErrors (customers problem)));
          warns =
            (if transportationCosts problem = CostsMissing
             then [''No transportation costs specified, will use zeros''] else [])
      in \<lparr>isValid = (errs = []), errors = errs, warnings = warns\<rparr>)"

section \<open>solveMiddlemanProblem\<close>

text \<open>\<open>errors.join(', ')\<close>\<close>

fun joinWith :: "string \<Rightarrow> string list \<Rightarrow> string" where
  "joinWith sep [] = []"
| "joinWith sep [x] = x"
| "joinWith sep (x # y # ys) = x @ sep @ joinWith sep (y # ys)"

datatype js_error = Error string

record MiddlemanSolution = Results +
  profitMatrix :: "real list list"
  transportationPlan :: "real list list"
  isBalanced :: bool
  isFeasible :: bool
  isOptimal :: bool
  optimalRoutes :: "TransportationCell list"
  algorithm :: string
  executionTime :: real
  iterations :: nat

text \<open>
  The solver reads the clock twice, \<open>performance.now()\<close> on entry and before it
  returns; the two readings are parameters here. Its log output is not modelled.
\<close>

definition solveMiddlemanProblem ::
  "real \<Rightarrow> real \<Rightarrow> MiddlemanProblem \<Rightarrow> js_error + MiddlemanSolution" where
  "solveMiddlemanProblem startTime endTime problem =
     (let validation = validateProblem problem in
      if \<not> isValid validation
      then Inl (Error (''Invalid problem: '' @ joinWith '', '' (errors validation)))
      else if suppliers problem = [] \<or> customers problem = []
      then Inl (Error ''Invalid problem: no suppliers or customers'')
      else
        (let balancedProblem = balanceProblem (suppliers problem) (customers problem);
             bss = bp_suppliers balancedProblem;
             bcs = bp_customers balancedProblem;
             tcosts = validateTransportationCosts (transportationCosts problem)
                        (length bss) (length bcs);
             Z = calculateProfitMatrix bss bcs tcosts;
             plan0 = findOptimalTransportation Z bss bcs
         in case optimize Z bss bcs plan0 of
              (plan, its, isOpt, why) \<Rightarrow>
                (let results = calculateResults plan bss bcs tcosts;
                     routes = createOptimalRoutes plan bss bcs tcosts Z
                 in Inr \<lparr>totalPurchaseCost = totalPurchaseCost results,
                         totalTransportationCost = totalTransportationCost results,
                         totalRevenue = totalRevenue results,
                         totalProfit = totalProfit results,
                         profitMatrix = Z,
                         transportationPlan = plan,
                         isBalanced = bp_isBalanced balancedProblem,
                         isFeasible = True,
                         isOptimal = isOpt,
                         optimalRoutes = routes,
                         algorithm = ''Maximum Element Method with Dual Variable Optimality Check'',
                         executionTime = endTime - startTime,
                         iterations = its\<rparr>)))"

section \<open>Predicates of the statements\<close>

text \<open>The inputs that the validation is to refuse: no suppliers, no customers, a supply or
  demand that is not positive, a negative purchase cost or selling price.\<close>

definition structurallyInvalid :: "MiddlemanProblem \<Rightarrow> bool" where
  "structurallyInvalid problem =
     (suppliers problem = [] \<or> customers problem = [] \<or>
      (\<exists>s \<in> set (suppliers problem). supplier_supply s \<le> 0) \<or>
      (\<exists>c \<in> set (customers problem). demand c \<le> 0) \<or>
      (\<exists>s \<in> set (suppliers problem). purchaseCost s < 0) \<or>
      (\<exists>c \<in> set (customers problem). sellingPrice c < 0))"

text \<open>
  The cells that the aggregator counts. \<open>realFlow\<close>: a positive flow between a
  supplier and a customer neither of which is fictitious. \<open>soldFlow\<close>: a positive flow
  to a customer who is not fictitious, whoever the supplier is. \<open>validatedCost\<close> is the
  cost per unit that \<open>calculateResults\<close> reads after it has passed its cost matrix
  through \<open>validateTransportationCosts\<close> again, and \<open>routeOf\<close> the route reported for
  a cell.
\<close>

definition realFlow :: "real list list \<Rightarrow> Supplier list \<Rightarrow> Customer list \<Rightarrow> nat \<times> nat \<Rightarrow> bool" where
  "realFlow plan ss cs c =
     (case c of (i, j) \<Rightarrow>
        entryOrZero plan i j > 0 \<and> \<not> isFictitiousSupplier (ss ! i) \<and> \<not> isFictitiousCustomer (cs ! j))"

definition soldFlow :: "real list list \<Rightarrow> Customer list \<Rightarrow> nat \<times> nat \<Rightarrow> bool" where
  "soldFlow plan cs c =
     (case c of (i, j) \<Rightarrow> entryOrZero plan i j > 0 \<and> \<not> isFictitiousCustomer (cs ! j))"

definition validatedCost :: "real list list \<Rightarrow> nat \<Rightarrow> nat \<Rightarrow> real" where
  "validatedCost tcosts i j = (if tcosts \<noteq> [] \<and> hd tcosts \<noteq> [] then entryOrZero tcosts i j else 0)"

definition routeOf ::
  "real list list \<Rightarrow> Supplier list \<Rightarrow> Customer list \<Rightarrow> real list list \<Rightarrow> real list list \<Rightarrow>
   nat \<times> nat \<Rightarrow> TransportationCell" where
  "routeOf plan ss cs tcosts Z c =
     (case c of (i, j) \<Rightarrow>
        \<lparr>route_supplierId = supplier_id (ss ! i), route_customerId = customer_id (cs ! j),
         quantity = entryOrZero plan i j, unitProfit = entryOrZero Z i j,
         route_purchaseCost = purchaseCost (ss ! i),
         route_transportationCost = validatedCost tcosts i j,
         route_sellingPrice = sellingPrice (cs ! j)\<rparr>)"

text \<open>
  The sum of row \<open>i\<close> and of column \<open>j\<close> of a plan, as \<open>improveSolution\<close> computes
  them with \<open>reduce\<close>. A plan is \<open>saturated\<close> for given supplies and demands when it has
  their shape, no negative entry, and every row sum equals the supply and every column
  sum the demand.
\<close>

definition rowSum :: "real list list \<Rightarrow> nat \<Rightarrow> real" where
  "rowSum plan i = sum_list (plan ! i)"

definition colSum :: "real list list \<Rightarrow> nat \<Rightarrow> real" where
  "colSum plan j = sum_list (map (\<lambda>row. row ! j) plan)"

definition saturated ::
  "real list \<Rightarrow> real list \<Rightarrow> real list list \<Rightarrow> bool" where
  "saturated sp dm plan =
     (shaped (length sp) (length dm) plan \<and>
      (\<forall>i < length sp. \<forall>j < length dm. 0 \<le> plan ! i ! j) \<and>
      (\<forall>i < length sp. rowSum plan i = sp ! i) \<and>
      (\<forall>j < length dm. colSum plan j = dm ! j))"

text \<open>
  The invariant of the initial builder's loop, for supplies \<open>sp\<close> and demands \<open>dm\<close>: the
  remaining vectors are not negative and hold what the plan has not yet shipped, a cell
  whose row and column both have something left is still 0, the remaining supply and
  demand have equal totals, and the steps taken plus the rows and columns still open
  do not exceed their number.
\<close>

definition memInv ::
  "real list \<Rightarrow> real list \<Rightarrow> real list list \<times> real list \<times> real list \<times> nat \<Rightarrow> bool" where
  "memInv sp dm st =
     (case st of (plan, rs, rd, k) \<Rightarrow>
        length rs = length sp \<and> length rd = length dm \<and>
        shaped (length sp) (length dm) plan \<and>
        (\<forall>i < length sp. 0 \<le> rs ! i \<and> rowSum plan i + rs ! i = sp ! i) \<and>
        (\<forall>j < length dm. 0 \<le> rd ! j \<and> colSum plan j + rd ! j = dm ! j) \<and>
        (\<forall>i < length sp. \<forall>j < length dm.
           0 \<le> plan ! i ! j \<and> (0 < rs ! i \<and> 0 < rd ! j \<longrightarrow> plan ! i ! j = 0)) \<and>
        sum_list rs = sum_list rd \<and>
        k + positives rs + positives rd \<le> length sp + length dm \<and>
        (positives rs + positives rd = 0 \<longrightarrow> k \<le> length sp + length dm - 1))"

text \<open>
  A cell that the scan of the initial builder may pick, and the order in which the scan
  visits the cells: row by row, and within a row by column.
\<close>

definition eligible :: "real list \<Rightarrow> real list \<Rightarrow> nat \<times> nat \<Rightarrow> bool" where
  "eligible rs rd c = (case c of (i, j) \<Rightarrow> rs ! i > 0 \<and> rd ! j > 0)"

definition rowMajorBefore :: "nat \<times> nat \<Rightarrow> nat \<times> nat \<Rightarrow> bool" where
  "rowMajorBefore c d = (case c of (i, j) \<Rightarrow> case d of (i', j') \<Rightarrow> i < i' \<or> (i = i' \<and> j < j'))"

text \<open>A result of the solver with the clock's contribution set to 0.\<close>

definition withoutTime :: "js_error + MiddlemanSolution \<Rightarrow> js_error + MiddlemanSolution" where
  "withoutTime r = (case r of Inl e \<Rightarrow> Inl e | Inr s \<Rightarrow> Inr (s\<lparr>executionTime := 0\<rparr>))"



section \<open>Example problems\<close>

text \<open>\<open>smallExample\<close> of src/lib/utils/examples.ts: supply 120, demand 100.\<close>

definition smallExample :: MiddlemanProblem where
  "smallExample =
     \<lparr>suppliers =
        [\<lparr>supplier_id = ''S1'', supplier_name = ''Factory A'', supplier_supply = 50,
          purchaseCost = 8\<rparr>,
         \<lparr>supplier_id = ''S2'', supplier_name = ''Factory B'', supplier_supply = 70,
          purchaseCost = 10\<rparr>],
      customers =
        [\<lparr>customer_id = ''C1'', customer_name = ''Store X'', demand = 40, sellingPrice = 20\<rparr>,
         \<lparr>customer_id = ''C2'', customer_name = ''Store Y'', demand = 60, sellingPrice = 25\<rparr>],
      transportationCosts =
        ObjectMatrix
          [[\<lparr>tc_supplierId = ''S1'', tc_customerId = ''C1'', cost = 2\<rparr>,
            \<lparr>tc_supplierId = ''S1'', tc_customerId = ''C2'', cost = 4\<rparr>],
           [\<lparr>tc_supplierId = ''S2'', tc_customerId = ''C1'', cost = 3\<rparr>,
            \<lparr>tc_supplierId = ''S2'', tc_customerId = ''C2'', cost = 1\<rparr>]]\<rparr>"

text \<open>A problem with more demand than supply: one supplier of 10 units, one customer
  who wants 30, no transportation costs given.\<close>

definition shortageExample :: MiddlemanProblem where
  "shortageExample =
     \<lparr>suppliers =
        [\<lparr>supplier_id = ''S1'', supplier_name = ''Only Factory'', supplier_supply = 10,
          purchaseCost = 5\<rparr>],
      customers =
        [\<lparr>customer_id = ''C1'', customer_name = ''Only Store'', demand = 30, sellingPrice = 20\<rparr>],
      transportationCosts = CostsMissing\<rparr>"

text \<open>
  A balanced problem with profit matrix \<open>[[10, 9], [9, 1]]\<close>, on which the greedy
  initial plan \<open>[[10, 0], [0, 10]]\<close> (profit 110) is not the best plan (180).
\<close>

definition balancedExample :: MiddlemanProblem where
  "balancedExample =
     \<lparr>suppliers =
        [\<lparr>supplier_id = ''S1'', supplier_name = ''North'', supplier_supply = 10, purchaseCost = 5\<rparr>,
         \<lparr>supplier_id = ''S2'', supplier_name = ''South'', supplier_supply = 10, purchaseCost = 5\<rparr>],
      customers =
        [\<lparr>customer_id = ''C1'', customer_name = ''East'', demand = 10, sellingPrice = 20\<rparr>,
         \<lparr>customer_id = ''C2'', customer_name = ''West'', demand = 10, sellingPrice = 20\<rparr>],
      transportationCosts = NumberMatrix [[5, 6], [6, 14]]\<rparr>"

text \<open>A problem that validation refuses: no supply, and a negative selling price.\<close>

definition invalidExample :: MiddlemanProblem where
  "invalidExample =
     \<lparr>suppliers =
        [\<lparr>supplier_id = ''S1'', supplier_name = ''Idle'', supplier_supply = 0, purchaseCost = 5\<rparr>],
      customers =
        [\<lparr>customer_id = ''C1'', customer_name = ''Shop'', demand = 10, sellingPrice = - 1\<rparr>],
      transportationCosts = CostsMissing\<rparr>"

text \<open>A balanced problem of one supplier and one customer.\<close>

definition singleExample :: MiddlemanProblem where
  "singleExample =
     \<lparr>suppliers =
        [\<lparr>supplier_id = ''S1'', supplier_name = ''Mill'', supplier_supply = 10, purchaseCost = 5\<rparr>],
      customers =
        [\<lparr>customer_id = ''C1'', customer_name = ''Bakery'', demand = 10, sellingPrice = 20\<rparr>],
      transportationCosts = NumberMatrix [[3]]\<rparr>"


text \<open>
  One supplier of 21 units, 21 customers who want one unit each at unit profits
  21, 20, ..., 1: started on the empty plan, the loop fills one column per pass.
\<close>

definition capSuppliers :: "Supplier list" where
  "capSuppliers =
     [\<lparr>supplier_id = ''S1'', supplier_name = ''Depot'', supplier_supply = 21, purchaseCost = 0\<rparr>]"

definition capCustomers :: "Customer list" where
  "capCustomers =
     map (\<lambda>k. \<lparr>customer_id = ''C'', customer_name = ''Shop'', demand = 1,
               sellingPrice = real (21 - k)\<rparr>) [0..<21]"

definition capProfits :: "real list list" where
  "capProfits = [map (\<lambda>k. real (21 - k)) [0..<21]]"

text \<open>What the solver returns on \<open>shortageExample\<close>, the clock read as 0 and then 1.\<close>

definition shortageSolution :: MiddlemanSolution where
  "shortageSolution =
     \<lparr>totalPurchaseCost = 50, totalTransportationCost = 0, totalRevenue = 600, totalProfit = 550,
      profitMatrix = [[15], [20]],
      transportationPlan = [[10], [20]],
      isBalanced = False, isFeasible = True, isOptimal = True,
      optimalRoutes =
        [\<lparr>route_supplierId = ''S1'', route_customerId = ''C1'', quantity = 10, unitProfit = 15,
          route_purchaseCost = 5, route_transportationCost = 0, route_sellingPrice = 20\<rparr>],
      algorithm = ''Maximum Element Method with Dual Variable Optimality Check'',
      executionTime = 1, iterations = 0\<rparr>"

text \<open>What the solver returns on the other examples, with the same clock readings.\<close>

definition singleSolution :: MiddlemanSolution where
  "singleSolution =
     \<lparr>totalPurchaseCost = 50, totalTransportationCost = 30, totalRevenue = 200, totalProfit = 120,
      profitMatrix = [[12]],
      transportationPlan = [[10]],
      isBalanced = True, isFeasible = True, isOptimal = True,
      optimalRoutes =
        [\<lparr>route_supplierId = ''S1'', route_customerId = ''C1'', quantity = 10, unitProfit = 12,
          route_purchaseCost = 5, route_transportationCost = 3, route_sellingPrice = 20\<rparr>],
      algorithm = ''Maximum Element Method with Dual Variable Optimality Check'',
      executionTime = 1, iterations = 0\<rparr>"

definition smallSolution :: MiddlemanSolution where
  "smallSolution =
     \<lparr>totalPurchaseCost = 920, totalTransportationCost = 140, totalRevenue = 2300,
      totalProfit = 1240,
      profitMatrix = [[10, 13, - 8], [7, 14, - 10]],
      transportationPlan = [[40, 0, 10], [0, 60, 10]],
      isBalanced = False, isFeasible = True, isOptimal = True,
      optimalRoutes =
        [\<lparr>route_supplierId = ''S1'', route_customerId = ''C1'', quantity = 40, unitProfit = 10,
          route_purchaseCost = 8, route_transportationCost = 2, route_sellingPrice = 20\<rparr>,
         \<lparr>route_supplierId = ''S2'', route_customerId = ''C2'', quantity = 60, unitProfit = 14,
          route_purchaseCost = 10, route_transportationCost = 1, route_sellingPrice = 25\<rparr>],
      algorithm = ''Maximum Element Method with Dual Variable Optimality Check'',
      executionTime = 1, iterations = 0\<rparr>"

definition balancedSolution :: MiddlemanSolution where
  "balancedSolution =
     \<lparr>totalPurchaseCost = 100, totalTransportationCost = 190, totalRevenue = 400,
      totalProfit = 110,
      profitMatrix = [[10, 9], [9, 1]],
      transportationPlan = [[10, 0], [0, 10]],
      isBalanced = True, isFeasible = True, isOptimal = False,
      optimalRoutes =
        [\<lparr>route_supplierId = ''S1'', route_customerId = ''C1'', quantity = 10, unitProfit = 10,
          route_purchaseCost = 5, route_transportationCost = 5, route_sellingPrice = 20\<rparr>,
         \<lparr>route_supplierId = ''S2'', route_customerId = ''C2'', quantity = 10, unitProfit = 1,
          route_purchaseCost = 5, route_transportationCost = 14, route_sellingPrice = 20\<rparr>],
      algorithm = ''Maximum Element Method with Dual Variable Optimality Check'',
      executionTime = 1, iterations = 0\<rparr>"

section \<open>Basic facts\<close>

text \<open>The equations of the three loops are unfolded by name only.\<close>

declare memLoop.simps [simp del] improveLoop.simps [simp del] dualLoop.simps [simp del]

lemma reduceSum_foldl: "foldl (\<lambda>sum x. sum + f x) a xs = a + sum_list (map f xs)"
  by (induction xs arbitrary: a) (simp_all add: algebra_simps)

lemma reduceSum_sum_list: "reduceSum f xs = sum_list (map f xs)"
  by (simp add: reduceSum_def reduceSum_foldl)

section \<open>The profit matrix\<close>

lemma calculateProfitMatrix_shape:
  "shaped (length ss) (length cs) (calculateProfitMatrix ss cs tcosts)"
  by (simp add: shaped_def calculateProfitMatrix_def list_all_iff)

lemma calculateProfitMatrix_nth:
  "i < length ss \<Longrightarrow> j < length cs \<Longrightarrow>
   calculateProfitMatrix ss cs tcosts ! i ! j =
     sellingPrice (cs ! j) - purchaseCost (ss ! i) - entryOrZero tcosts i j"
  by (simp add: calculateProfitMatrix_def)

text \<open>
  Claim C5. \<open>calculateProfitMatrix\<close> is a function of its three arguments alone (it is a
  HOL function, and the source reads nothing else). Its result has one row per supplier
  and one entry per customer, and the entry at \<open>(i, j)\<close> is exactly
  \<open>sellingPrice[j] - purchaseCost[i] - transportCost[i][j]\<close>, where a transportation
  cost that the matrix does not hold counts as 0. On the suppliers and customers of the
  worked example with costs \<open>[[2,4],[3,1]]\<close> the result is \<open>[[10,13],[7,14]]\<close>.
\<close>

theorem calculateProfitMatrix_formula:
  "shaped (length ss) (length cs) (calculateProfitMatrix ss cs tcosts) \<and>
   (\<forall>i < length ss. \<forall>j < length cs.
      calculateProfitMatrix ss cs tcosts ! i ! j =
        sellingPrice (cs ! j) - purchaseCost (ss ! i) -
        (if i < length tcosts \<and> j < length (tcosts ! i) then tcosts ! i ! j else 0)) \<and>
   calculateProfitMatrix (suppliers smallExample) (customers smallExample) [[2, 4], [3, 1]] =
     [[10, 13], [7, 14]]"
proof (intro conjI allI impI)
  show "shaped (length ss) (length cs) (calculateProfitMatrix ss cs tcosts)"
    by (rule calculateProfitMatrix_shape)
next
  fix i j assume "i < length ss" "j < length cs"
  then show "calculateProfitMatrix ss cs tcosts ! i ! j =
        sellingPrice (cs ! j) - purchaseCost (ss ! i) -
        (if i < length tcosts \<and> j < length (tcosts ! i) then tcosts ! i ! j else 0)"
    by (simp add: calculateProfitMatrix_nth entryOrZero_def)
next
  show "calculateProfitMatrix (suppliers smallExample) (customers smallExample) [[2, 4], [3, 1]] =
     [[10, 13], [7, 14]]"
    by code_simp
qed

text \<open>The entry of the second supplier at the fictitious customer that balancing adds
  to the worked example: no cost is given for it, so it is \<open>0 - 10 - 0\<close>.\<close>

theorem calculateProfitMatrix_formula_witness:
  "(1::nat) < length (suppliers smallExample) \<and>
   (2::nat) < length (customers smallExample @ [fictitiousCustomerOf 20]) \<and>
   calculateProfitMatrix (suppliers smallExample)
     (customers smallExample @ [fictitiousCustomerOf 20]) [[2, 4], [3, 1]] ! 1 ! 2 = - 10"
proof -
  have a: "(1::nat) < length (suppliers smallExample)"
    by (simp add: smallExample_def)
  have b: "(2::nat) < length (customers smallExample @ [fictitiousCustomerOf 20])"
    by (simp add: smallExample_def)
  from calculateProfitMatrix_formula
         [of "suppliers smallExample" "customers smallExample @ [fictitiousCustomerOf 20]"
             "[[2, 4], [3, 1]]"] a b
  have "calculateProfitMatrix (suppliers smallExample)
          (customers smallExample @ [fictitiousCustomerOf 20]) [[2, 4], [3, 1]] ! 1 ! 2 =
        sellingPrice ((customers smallExample @ [fictitiousCustomerOf 20]) ! 2) -
        purchaseCost (suppliers smallExample ! 1) -
        (if (1::nat) < length [[2, 4], [3, 1::real]] \<and> (2::nat) < length ([[2, 4], [3, 1::real]] ! 1)
         then [[2, 4], [3, 1::real]] ! 1 ! 2 else 0)"
    by blast
  then show ?thesis
    using a b by (simp add: smallExample_def fictitiousCustomerOf_def)
qed

section \<open>Balancing\<close>

lemma balanceProblem_totals:
  "reduceSum supplier_supply (bp_suppliers (balanceProblem ss cs)) =
   reduceSum demand (bp_customers (balanceProblem ss cs))"
  by (simp add: balanceProblem_def Let_def reduceSum_sum_list fictitiousCustomerOf_def
      fictitiousSupplierOf_def)



section \<open>Validation\<close>

lemma supplierErrors_Nil: "supplierErrors s = [] \<longleftrightarrow> \<not> supplier_supply s \<le> 0 \<and> \<not> purchaseCost s < 0"
  by (simp add: supplierErrors_def)

lemma customerErrors_Nil: "customerErrors c = [] \<longleftrightarrow> \<not> demand c \<le> 0 \<and> \<not> sellingPrice c < 0"
  by (simp add: customerErrors_def)

lemma concat_map_Nil: "concat (map f xs) = [] \<longleftrightarrow> (\<forall>x \<in> set xs. f x = [])"
  by (induction xs) auto

lemma validateProblem_isValid: "isValid (validateProblem problem) \<longleftrightarrow> \<not> structurallyInvalid problem"
  by (auto simp: validateProblem_def Let_def structurallyInvalid_def concat_map_Nil
      supplierErrors_Nil customerErrors_Nil)

lemma validateProblem_errors_Nil: "errors (validateProblem problem) = [] \<longleftrightarrow> isValid (validateProblem problem)"
  by (simp add: validateProblem_def Let_def)

lemma solve_invalid:
  "structurallyInvalid problem \<Longrightarrow>
   solveMiddlemanProblem ts te problem =
     Inl (Error (''Invalid problem: '' @ joinWith '', '' (errors (validateProblem problem))))"
  by (simp add: solveMiddlemanProblem_def Let_def validateProblem_isValid)

lemma solve_valid:
  "\<not> structurallyInvalid problem \<Longrightarrow> \<exists>s. solveMiddlemanProblem ts te problem = Inr s"
  by (auto simp: solveMiddlemanProblem_def Let_def validateProblem_isValid structurallyInvalid_def
      split: prod.splits)

section \<open>The results aggregator\<close>

lemma entryOrZero_zeroMatrix: "entryOrZero (zeroMatrix m n) i j = 0"
  by (auto simp: entryOrZero_def zeroMatrix_def)

lemma entryOrZero_validated:
  "i < m \<Longrightarrow> j < n \<Longrightarrow>
   entryOrZero (validateTransportationCosts (NumberMatrix tcosts) m n) i j = validatedCost tcosts i j"
  by (simp add: validateTransportationCosts_def validatedCost_def entryOrZero_zeroMatrix)
     (simp add: entryOrZero_def)

lemma resultsCell_step:
  "resultsCell plan ss cs vc (i, j) (a, b, c) =
     (a + (if realFlow plan ss cs (i, j) then entryOrZero plan i j * purchaseCost (ss ! i) else 0),
      b + (if realFlow plan ss cs (i, j) then entryOrZero plan i j * entryOrZero vc i j else 0),
      c + (if soldFlow plan cs (i, j) then entryOrZero plan i j * sellingPrice (cs ! j) else 0))"
  by (simp add: resultsCell_def Let_def realFlow_def soldFlow_def)

lemma fold_resultsCell:
  "fold (resultsCell plan ss cs vc) xs (a, b, c) =
     (a + (\<Sum>(i, j) \<leftarrow> filter (realFlow plan ss cs) xs. entryOrZero plan i j * purchaseCost (ss ! i)),
      b + (\<Sum>(i, j) \<leftarrow> filter (realFlow plan ss cs) xs. entryOrZero plan i j * entryOrZero vc i j),
      c + (\<Sum>(i, j) \<leftarrow> filter (soldFlow plan cs) xs. entryOrZero plan i j * sellingPrice (cs ! j)))"
proof (induction xs arbitrary: a b c)
  case Nil
  then show ?case by simp
next
  case (Cons x xs)
  obtain i j where x: "x = (i, j)" by (cases x)
  show ?case
    by (simp add: x resultsCell_step Cons.IH algebra_simps)
qed

lemma sum_list_cells_cong:
  assumes "\<And>i j. i < m \<Longrightarrow> j < n \<Longrightarrow> P (i, j) \<Longrightarrow> f (i, j) = g (i, j)"
  shows "sum_list (map f (filter P (cells m n))) = sum_list (map g (filter P (cells m n)))"
proof -
  have "map f (filter P (cells m n)) = map g (filter P (cells m n))"
  proof (rule map_cong [OF refl])
    fix x assume "x \<in> set (filter P (cells m n))"
    then have "x \<in> {0..<m} \<times> {0..<n}" "P x"
      by (simp_all add: set_cells)
    moreover obtain i j where "x = (i, j)" by (cases x)
    ultimately show "f x = g x" by (simp add: assms)
  qed
  then show ?thesis by (rule arg_cong)
qed

lemma calculateResults_closed:
  "calculateResults plan ss cs tcosts =
     \<lparr>totalPurchaseCost =
        (\<Sum>(i, j) \<leftarrow> filter (realFlow plan ss cs) (cells (length ss) (length cs)).
            entryOrZero plan i j * purchaseCost (ss ! i)),
      totalTransportationCost =
        (\<Sum>(i, j) \<leftarrow> filter (realFlow plan ss cs) (cells (length ss) (length cs)).
            entryOrZero plan i j * validatedCost tcosts i j),
      totalRevenue =
        (\<Sum>(i, j) \<leftarrow> filter (soldFlow plan cs) (cells (length ss) (length cs)).
            entryOrZero plan i j * sellingPrice (cs ! j)),
      totalProfit =
        (\<Sum>(i, j) \<leftarrow> filter (soldFlow plan cs) (cells (length ss) (length cs)).
            entryOrZero plan i j * sellingPrice (cs ! j)) -
        (\<Sum>(i, j) \<leftarrow> filter (realFlow plan ss cs) (cells (length ss) (length cs)).
            entryOrZero plan i j * purchaseCost (ss ! i)) -
        (\<Sum>(i, j) \<leftarrow> filter (realFlow plan ss cs) (cells (length ss) (length cs)).
            entryOrZero plan i j * validatedCost tcosts i j)\<rparr>"
proof -
  have tc: "(\<Sum>(i, j) \<leftarrow> filter (realFlow plan ss cs) (cells (length ss) (length cs)).
            entryOrZero plan i j *
            entryOrZero (validateTransportationCosts (NumberMatrix tcosts) (length ss) (length cs)) i j) =
        (\<Sum>(i, j) \<leftarrow> filter (realFlow plan ss cs) (cells (length ss) (length cs)).
            entryOrZero plan i j * validatedCost tcosts i j)"
    by (rule sum_list_cells_cong) (simp add: entryOrZero_validated)
  show ?thesis
    by (simp add: calculateResults_def Let_def fold_resultsCell tc)
qed

lemma concat_map_filter:
  "(\<And>x. x \<in> set xs \<Longrightarrow> f x = (if P x then [g x] else [])) \<Longrightarrow>
   concat (map f xs) = map g (filter P xs)"
  by (induction xs) auto

lemma createOptimalRoutes_closed:
  "createOptimalRoutes plan ss cs tcosts Z =
     map (routeOf plan ss cs tcosts Z) (filter (realFlow plan ss cs) (cells (length ss) (length cs)))"
  unfolding createOptimalRoutes_def Let_def
proof (rule concat_map_filter)
  fix x assume "x \<in> set (cells (length ss) (length cs))"
  moreover obtain i j where "x = (i, j)" by (cases x)
  ultimately have x: "x = (i, j)" "i < length ss" "j < length cs"
    by (simp_all add: set_cells)
  show "routeAt plan ss cs
          (validateTransportationCosts (NumberMatrix tcosts) (length ss) (length cs)) Z x =
        (if realFlow plan ss cs x then [routeOf plan ss cs tcosts Z x] else [])"
    using x by (auto simp: routeAt_def routeOf_def realFlow_def Let_def entryOrZero_validated)
qed


lemma solve_Inr:
  assumes "solveMiddlemanProblem ts te problem = Inr s"
  defines "bss \<equiv> bp_suppliers (balanceProblem (suppliers problem) (customers problem))"
    and "bcs \<equiv> bp_customers (balanceProblem (suppliers problem) (customers problem))"
  defines "tc \<equiv> validateTransportationCosts (transportationCosts problem) (length bss) (length bcs)"
  defines "Z \<equiv> calculateProfitMatrix bss bcs tc"
  defines "run \<equiv> optimize Z bss bcs (findOptimalTransportation Z bss bcs)"
  shows "\<not> structurallyInvalid problem"
    and "profitMatrix s = Z"
    and "transportationPlan s = fst run"
    and "iterations s = fst (snd run)"
    and "isOptimal s = fst (snd (snd run))"
    and "isBalanced s = bp_isBalanced (balanceProblem (suppliers problem) (customers problem))"
    and "executionTime s = te - ts"
    and "totalPurchaseCost s = totalPurchaseCost (calculateResults (fst run) bss bcs tc)"
    and "totalTransportationCost s = totalTransportationCost (calculateResults (fst run) bss bcs tc)"
    and "totalRevenue s = totalRevenue (calculateResults (fst run) bss bcs tc)"
    and "totalProfit s = totalProfit (calculateResults (fst run) bss bcs tc)"
    and "optimalRoutes s = createOptimalRoutes (fst run) bss bcs tc Z"
  using assms(1)
  unfolding bss_def bcs_def tc_def Z_def run_def
  by (auto simp: solveMiddlemanProblem_def Let_def validateProblem_isValid
      split: if_splits prod.splits)

lemma solve_shortageExample: "solveMiddlemanProblem 0 1 shortageExample = Inr shortageSolution"
  by code_simp

lemma balance_shortageExample:
  "balanceProblem (suppliers shortageExample) (customers shortageExample) =
     \<lparr>bp_suppliers = suppliers shortageExample @ [fictitiousSupplierOf 20],
      bp_customers = customers shortageExample,
      bp_isBalanced = False,
      fictitiousSupplier = Some (fictitiousSupplierOf 20),
      fictitiousCustomer = None,
      originalSupplyTotal = 10, originalDemandTotal = 30\<rparr>"
  by code_simp

text \<open>
  Claim C9. For every plan, \<open>calculateResults\<close> adds \<open>purchaseCost[i] * X[i][j]\<close> to the
  total purchase cost and \<open>transportCost[i][j] * X[i][j]\<close> to the total transportation
  cost exactly for the cells with positive flow whose supplier and customer are both
  not fictitious; it adds \<open>sellingPrice[j] * X[i][j]\<close> to the total revenue exactly
  for the cells with positive flow whose customer is not fictitious, the cells of a
  fictitious supplier included; the net profit is revenue minus purchase cost minus
  transportation cost; and \<open>createOptimalRoutes\<close> lists, in scan order, exactly the
  cells with positive flow and no fictitious endpoint. The totals and routes of a
  solution are these, taken at the final plan and the balanced lists.
\<close>

theorem calculateResults_sums:
  "totalPurchaseCost (calculateResults plan ss cs tcosts) =
     (\<Sum>(i, j) \<leftarrow> filter (realFlow plan ss cs) (cells (length ss) (length cs)).
         entryOrZero plan i j * purchaseCost (ss ! i)) \<and>
   totalTransportationCost (calculateResults plan ss cs tcosts) =
     (\<Sum>(i, j) \<leftarrow> filter (realFlow plan ss cs) (cells (length ss) (length cs)).
         entryOrZero plan i j * validatedCost tcosts i j) \<and>
   totalRevenue (calculateResults plan ss cs tcosts) =
     (\<Sum>(i, j) \<leftarrow> filter (soldFlow plan cs) (cells (length ss) (length cs)).
         entryOrZero plan i j * sellingPrice (cs ! j)) \<and>
   totalProfit (calculateResults plan ss cs tcosts) =
     totalRevenue (calculateResults plan ss cs tcosts) -
     totalPurchaseCost (calculateResults plan ss cs tcosts) -
     totalTransportationCost (calculateResults plan ss cs tcosts) \<and>
   createOptimalRoutes plan ss cs tcosts Z =
     map (routeOf plan ss cs tcosts Z)
       (filter (realFlow plan ss cs) (cells (length ss) (length cs))) \<and>
   (solveMiddlemanProblem ts te problem = Inr s \<longrightarrow>
      (let bss = bp_suppliers (balanceProblem (suppliers problem) (customers problem));
           bcs = bp_customers (balanceProblem (suppliers problem) (customers problem));
           tc = validateTransportationCosts (transportationCosts problem) (length bss) (length bcs);
           results = calculateResults (transportationPlan s) bss bcs tc
       in totalPurchaseCost s = totalPurchaseCost results \<and>
          totalTransportationCost s = totalTransportationCost results \<and>
          totalRevenue s = totalRevenue results \<and>
          totalProfit s = totalProfit results \<and>
          optimalRoutes s = createOptimalRoutes (transportationPlan s) bss bcs tc (profitMatrix s)))"
proof -
  have "solveMiddlemanProblem ts te problem = Inr s \<longrightarrow>
      (let bss = bp_suppliers (balanceProblem (suppliers problem) (customers problem));
           bcs = bp_customers (balanceProblem (suppliers problem) (customers problem));
           tc = validateTransportationCosts (transportationCosts problem) (length bss) (length bcs);
           results = calculateResults (transportationPlan s) bss bcs tc
       in totalPurchaseCost s = totalPurchaseCost results \<and>
          totalTransportationCost s = totalTransportationCost results \<and>
          totalRevenue s = totalRevenue results \<and>
          totalProfit s = totalProfit results \<and>
          optimalRoutes s = createOptimalRoutes (transportationPlan s) bss bcs tc (profitMatrix s))"
    by (simp add: Let_def solve_Inr)
  then show ?thesis
    by (simp add: calculateResults_closed createOptimalRoutes_closed)
qed


text \<open>On \<open>shortageExample\<close> the final plan is \<open>[[10], [20]]\<close>, the second row being the
  fictitious supplier: the revenue counts both cells, the purchase cost the first only.\<close>

theorem calculateResults_sums_witness:
  "solveMiddlemanProblem 0 1 shortageExample = Inr shortageSolution \<and>
   totalRevenue shortageSolution =
     totalRevenue (calculateResults [[10], [20]]
        (suppliers shortageExample @ [fictitiousSupplierOf 20]) (customers shortageExample)
        [[0], [0]]) \<and>
   totalRevenue (calculateResults [[10], [20]]
        (suppliers shortageExample @ [fictitiousSupplierOf 20]) (customers shortageExample)
        [[0], [0]]) = 10 * 20 + 20 * 20 \<and>
   totalPurchaseCost (calculateResults [[10], [20]]
        (suppliers shortageExample @ [fictitiousSupplierOf 20]) (customers shortageExample)
        [[0], [0]]) = 10 * 5"
proof -
  let ?ss = "suppliers shortageExample @ [fictitiousSupplierOf 20]"
  let ?cs = "customers shortageExample"
  note inst = calculateResults_sums [where problem = shortageExample and s = shortageSolution
      and ts = 0 and te = 1 and plan = "[[10], [20]]" and ss = "?ss" and cs = "?cs"
      and tcosts = "[[0], [0]]"]
  have tc: "validateTransportationCosts (transportationCosts shortageExample)
              (length ?ss) (length ?cs) = [[0], [0]]"
    by code_simp
  have sold: "(\<Sum>(i, j) \<leftarrow> filter (soldFlow [[10], [20]] ?cs) (cells (length ?ss) (length ?cs)).
         entryOrZero [[10], [20]] i j * sellingPrice (?cs ! j)) = 10 * 20 + 20 * 20"
    by code_simp
  have bought: "(\<Sum>(i, j) \<leftarrow> filter (realFlow [[10], [20]] ?ss ?cs) (cells (length ?ss) (length ?cs)).
         entryOrZero [[10], [20]] i j * purchaseCost (?ss ! i)) = 10 * 5"
    by code_simp
  have plan: "transportationPlan shortageSolution = [[10], [20]]"
    by (simp add: shortageSolution_def)
  from inst solve_shortageExample
  have "let bss = bp_suppliers (balanceProblem (suppliers shortageExample) (customers shortageExample));
            bcs = bp_customers (balanceProblem (suppliers shortageExample) (customers shortageExample));
            tc = validateTransportationCosts (transportationCosts shortageExample) (length bss) (length bcs);
            results = calculateResults (transportationPlan shortageSolution) bss bcs tc
        in totalPurchaseCost shortageSolution = totalPurchaseCost results \<and>
           totalTransportationCost shortageSolution = totalTransportationCost results \<and>
           totalRevenue shortageSolution = totalRevenue results \<and>
           totalProfit shortageSolution = totalProfit results \<and>
           optimalRoutes shortageSolution =
             createOptimalRoutes (transportationPlan shortageSolution) bss bcs tc
               (profitMatrix shortageSolution)"
    by blast
  then have r1: "totalRevenue shortageSolution =
     totalRevenue (calculateResults [[10], [20]] ?ss ?cs [[0], [0]])"
    by (simp only: Let_def balance_shortageExample BalancedProblem.select_convs tc plan)
  from inst have "totalRevenue (calculateResults [[10], [20]] ?ss ?cs [[0], [0]]) =
     (\<Sum>(i, j) \<leftarrow> filter (soldFlow [[10], [20]] ?cs) (cells (length ?ss) (length ?cs)).
         entryOrZero [[10], [20]] i j * sellingPrice (?cs ! j))"
    by blast
  then have r2: "totalRevenue (calculateResults [[10], [20]] ?ss ?cs [[0], [0]]) = 10 * 20 + 20 * 20"
    by (simp only: sold)
  from inst have "totalPurchaseCost (calculateResults [[10], [20]] ?ss ?cs [[0], [0]]) =
     (\<Sum>(i, j) \<leftarrow> filter (realFlow [[10], [20]] ?ss ?cs) (cells (length ?ss) (length ?cs)).
         entryOrZero [[10], [20]] i j * purchaseCost (?ss ! i))"
    by blast
  then have r3: "totalPurchaseCost (calculateResults [[10], [20]] ?ss ?cs [[0], [0]]) = 10 * 5"
    by (simp only: bought)
  from solve_shortageExample r1 r2 r3 show ?thesis
    by blast
qed


section \<open>Flows of fictitious nodes\<close>

lemma filter_cells_cong:
  assumes "\<And>i j. i < m \<Longrightarrow> j < n \<Longrightarrow> P (i, j) = Q (i, j)"
  shows "filter P (cells m n) = filter Q (cells m n)"
proof (rule filter_cong [OF refl])
  fix x assume "x \<in> set (cells m n)"
  moreover obtain i j where "x = (i, j)" by (cases x)
  ultimately show "P x = Q x" by (simp add: set_cells assms)
qed

lemma realFlow_agree:
  assumes "\<forall>i < length ss. \<forall>j < length cs.
             \<not> isFictitiousSupplier (ss ! i) \<and> \<not> isFictitiousCustomer (cs ! j) \<longrightarrow>
             entryOrZero plan i j = entryOrZero plan' i j"
  shows "filter (realFlow plan ss cs) (cells (length ss) (length cs)) =
         filter (realFlow plan' ss cs) (cells (length ss) (length cs))"
  by (rule filter_cells_cong) (use assms in \<open>auto simp: realFlow_def\<close>)

lemma soldFlow_agree:
  assumes "\<forall>i < length ss. \<forall>j < length cs.
             \<not> isFictitiousCustomer (cs ! j) \<longrightarrow> entryOrZero plan i j = entryOrZero plan' i j"
  shows "filter (soldFlow plan cs) (cells (length ss) (length cs)) =
         filter (soldFlow plan' cs) (cells (length ss) (length cs))"
  by (rule filter_cells_cong) (use assms in \<open>auto simp: soldFlow_def\<close>)

text \<open>
  Claim C1, as the code has it. The total purchase cost, the total transportation cost
  and the route list do not depend on any flow that touches a fictitious supplier or a
  fictitious customer: two plans that agree on every cell with two real endpoints give
  the same two totals and the same routes, and every listed route has a positive
  quantity, a supplier that is not the fictitious supplier and a customer that is not
  the fictitious customer. The total revenue does not depend on the flows to a
  fictitious customer: two plans that agree on every cell whose customer is real give
  the same revenue. The revenue does count the flow from a fictitious supplier to a
  real customer, as the example that follows shows.
\<close>

theorem fictitious_flows_excluded:
  "((\<forall>i < length ss. \<forall>j < length cs.
        \<not> isFictitiousSupplier (ss ! i) \<and> \<not> isFictitiousCustomer (cs ! j) \<longrightarrow>
        entryOrZero plan i j = entryOrZero plan' i j) \<longrightarrow>
      totalPurchaseCost (calculateResults plan ss cs tcosts) =
        totalPurchaseCost (calculateResults plan' ss cs tcosts) \<and>
      totalTransportationCost (calculateResults plan ss cs tcosts) =
        totalTransportationCost (calculateResults plan' ss cs tcosts) \<and>
      createOptimalRoutes plan ss cs tcosts Z = createOptimalRoutes plan' ss cs tcosts Z) \<and>
   ((\<forall>i < length ss. \<forall>j < length cs.
        \<not> isFictitiousCustomer (cs ! j) \<longrightarrow> entryOrZero plan i j = entryOrZero plan' i j) \<longrightarrow>
      totalRevenue (calculateResults plan ss cs tcosts) =
        totalRevenue (calculateResults plan' ss cs tcosts)) \<and>
   (\<forall>r \<in> set (createOptimalRoutes plan ss cs tcosts Z).
      quantity r > 0 \<and> route_supplierId r \<noteq> ''fictitious-supplier'' \<and>
      route_customerId r \<noteq> ''fictitious-customer'')"
proof (intro conjI impI ballI)
  assume agree: "\<forall>i < length ss. \<forall>j < length cs.
        \<not> isFictitiousSupplier (ss ! i) \<and> \<not> isFictitiousCustomer (cs ! j) \<longrightarrow>
        entryOrZero plan i j = entryOrZero plan' i j"
  have same: "\<And>f g. (\<And>i j. i < length ss \<Longrightarrow> j < length cs \<Longrightarrow> realFlow plan' ss cs (i, j) \<Longrightarrow>
                        f (i, j) = g (i, j)) \<Longrightarrow>
     map f (filter (realFlow plan ss cs) (cells (length ss) (length cs))) =
     map g (filter (realFlow plan' ss cs) (cells (length ss) (length cs)))"
  proof -
    fix f g :: "nat \<times> nat \<Rightarrow> 'b"
    assume fg: "\<And>i j. i < length ss \<Longrightarrow> j < length cs \<Longrightarrow> realFlow plan' ss cs (i, j) \<Longrightarrow>
                  f (i, j) = g (i, j)"
    show "map f (filter (realFlow plan ss cs) (cells (length ss) (length cs))) =
          map g (filter (realFlow plan' ss cs) (cells (length ss) (length cs)))"
      unfolding realFlow_agree [OF agree]
    proof (rule map_cong [OF refl])
      fix x assume "x \<in> set (filter (realFlow plan' ss cs) (cells (length ss) (length cs)))"
      then have "x \<in> {0..<length ss} \<times> {0..<length cs}" "realFlow plan' ss cs x"
        by (simp_all add: set_cells)
      moreover obtain i j where "x = (i, j)" by (cases x)
      ultimately show "f x = g x" by (simp add: fg)
    qed
  qed
  have eq: "\<And>i j. i < length ss \<Longrightarrow> j < length cs \<Longrightarrow> realFlow plan' ss cs (i, j) \<Longrightarrow>
              entryOrZero plan i j = entryOrZero plan' i j"
    using agree by (simp add: realFlow_def)
  show "totalPurchaseCost (calculateResults plan ss cs tcosts) =
        totalPurchaseCost (calculateResults plan' ss cs tcosts)"
    unfolding calculateResults_closed Results.select_convs
    by (rule arg_cong [where f = sum_list], rule same) (simp add: eq)
  show "totalTransportationCost (calculateResults plan ss cs tcosts) =
        totalTransportationCost (calculateResults plan' ss cs tcosts)"
    unfolding calculateResults_closed Results.select_convs
    by (rule arg_cong [where f = sum_list], rule same) (simp add: eq)
  show "createOptimalRoutes plan ss cs tcosts Z = createOptimalRoutes plan' ss cs tcosts Z"
    unfolding createOptimalRoutes_closed
    by (rule same) (simp add: eq routeOf_def)
next
  assume agree: "\<forall>i < length ss. \<forall>j < length cs.
        \<not> isFictitiousCustomer (cs ! j) \<longrightarrow> entryOrZero plan i j = entryOrZero plan' i j"
  have "map (\<lambda>(i, j). entryOrZero plan i j * sellingPrice (cs ! j))
          (filter (soldFlow plan cs) (cells (length ss) (length cs))) =
        map (\<lambda>(i, j). entryOrZero plan' i j * sellingPrice (cs ! j))
          (filter (soldFlow plan' cs) (cells (length ss) (length cs)))"
    unfolding soldFlow_agree [OF agree]
  proof (rule map_cong [OF refl])
    fix x assume "x \<in> set (filter (soldFlow plan' cs) (cells (length ss) (length cs)))"
    then have "x \<in> {0..<length ss} \<times> {0..<length cs}" "soldFlow plan' cs x"
      by (simp_all add: set_cells)
    moreover obtain i j where "x = (i, j)" by (cases x)
    ultimately show "(case x of (i, j) \<Rightarrow> entryOrZero plan i j * sellingPrice (cs ! j)) =
                     (case x of (i, j) \<Rightarrow> entryOrZero plan' i j * sellingPrice (cs ! j))"
      using agree by (simp add: soldFlow_def)
  qed
  then show "totalRevenue (calculateResults plan ss cs tcosts) =
        totalRevenue (calculateResults plan' ss cs tcosts)"
    unfolding calculateResults_closed Results.select_convs by (rule arg_cong)
next
  fix r assume "r \<in> set (createOptimalRoutes plan ss cs tcosts Z)"
  then obtain c where c: "realFlow plan ss cs c" "r = routeOf plan ss cs tcosts Z c"
    unfolding createOptimalRoutes_closed by auto
  obtain i j where "c = (i, j)" by (cases c)
  with c show "quantity r > 0" and "route_supplierId r \<noteq> ''fictitious-supplier''"
    and "route_customerId r \<noteq> ''fictitious-customer''"
    by (simp_all add: realFlow_def routeOf_def isFictitiousSupplier_def isFictitiousCustomer_def)
qed


text \<open>The final plans of \<open>shortageExample\<close> and of the worked example, against the
  same plans with the flows of the fictitious node set to 0.\<close>

theorem fictitious_flows_excluded_witness:
  "totalPurchaseCost (calculateResults [[10], [20]]
      (suppliers shortageExample @ [fictitiousSupplierOf 20]) (customers shortageExample) [[0], [0]]) =
   totalPurchaseCost (calculateResults [[10], [0]]
      (suppliers shortageExample @ [fictitiousSupplierOf 20]) (customers shortageExample) [[0], [0]]) \<and>
   createOptimalRoutes [[10], [20]]
      (suppliers shortageExample @ [fictitiousSupplierOf 20]) (customers shortageExample) [[0], [0]]
      [[15], [20]] =
   createOptimalRoutes [[10], [0]]
      (suppliers shortageExample @ [fictitiousSupplierOf 20]) (customers shortageExample) [[0], [0]]
      [[15], [20]] \<and>
   totalRevenue (calculateResults [[40, 0, 10], [0, 60, 10]]
      (suppliers smallExample) (customers smallExample @ [fictitiousCustomerOf 20])
      [[2, 4, 0], [3, 1, 0]]) =
   totalRevenue (calculateResults [[40, 0, 0], [0, 60, 0]]
      (suppliers smallExample) (customers smallExample @ [fictitiousCustomerOf 20])
      [[2, 4, 0], [3, 1, 0]])"
proof -
  let ?ss = "suppliers shortageExample @ [fictitiousSupplierOf 20]"
  let ?cs = "customers shortageExample"
  let ?ss2 = "suppliers smallExample"
  let ?cs2 = "customers smallExample @ [fictitiousCustomerOf 20]"
  have h1: "\<forall>i < length ?ss. \<forall>j < length ?cs.
        \<not> isFictitiousSupplier (?ss ! i) \<and> \<not> isFictitiousCustomer (?cs ! j) \<longrightarrow>
        entryOrZero [[10], [20]] i j = entryOrZero [[10], [0]] i j"
    by (simp add: shortageExample_def fictitiousSupplierOf_def isFictitiousSupplier_def
        entryOrZero_def less_Suc_eq)
  have h2: "\<forall>i < length ?ss2. \<forall>j < length ?cs2.
        \<not> isFictitiousCustomer (?cs2 ! j) \<longrightarrow>
        entryOrZero [[40, 0, 10], [0, 60, 10]] i j = entryOrZero [[40, 0, 0], [0, 60, 0]] i j"
    by (auto simp: smallExample_def fictitiousCustomerOf_def isFictitiousCustomer_def
        entryOrZero_def less_Suc_eq)
  from h1 fictitious_flows_excluded [where ss = "?ss" and cs = "?cs" and plan = "[[10], [20]]"
      and plan' = "[[10], [0]]" and tcosts = "[[0], [0]]" and Z = "[[15], [20]]"]
  have a: "totalPurchaseCost (calculateResults [[10], [20]] ?ss ?cs [[0], [0]]) =
           totalPurchaseCost (calculateResults [[10], [0]] ?ss ?cs [[0], [0]])"
    and b: "createOptimalRoutes [[10], [20]] ?ss ?cs [[0], [0]] [[15], [20]] =
            createOptimalRoutes [[10], [0]] ?ss ?cs [[0], [0]] [[15], [20]]"
    by blast+
  from h2 fictitious_flows_excluded [where ss = "?ss2" and cs = "?cs2"
      and plan = "[[40, 0, 10], [0, 60, 10]]" and plan' = "[[40, 0, 0], [0, 60, 0]]"
      and tcosts = "[[2, 4, 0], [3, 1, 0]]"]
  have c: "totalRevenue (calculateResults [[40, 0, 10], [0, 60, 10]] ?ss2 ?cs2 [[2, 4, 0], [3, 1, 0]]) =
           totalRevenue (calculateResults [[40, 0, 0], [0, 60, 0]] ?ss2 ?cs2 [[2, 4, 0], [3, 1, 0]])"
    by blast
  from a b c show ?thesis by blast
qed

text \<open>
  Claim C1 as stated fails: on \<open>shortageExample\<close> balancing adds the fictitious
  supplier as row 1, the final plan ships 20 units from it to the real customer at
  price 20, and the reported revenue is \<open>600 = 10 * 20 + 20 * 20\<close>; without that flow it
  is 200.
\<close>

theorem revenue_counts_fictitious_supplier:
  "solveMiddlemanProblem 0 1 shortageExample = Inr shortageSolution \<and>
   bp_suppliers (balanceProblem (suppliers shortageExample) (customers shortageExample)) =
     suppliers shortageExample @ [fictitiousSupplierOf 20] \<and>
   isFictitiousSupplier ((suppliers shortageExample @ [fictitiousSupplierOf 20]) ! 1) \<and>
   transportationPlan shortageSolution = [[10], [20]] \<and>
   totalRevenue shortageSolution = 600 \<and>
   totalRevenue shortageSolution =
     totalRevenue (calculateResults [[10], [20]]
       (suppliers shortageExample @ [fictitiousSupplierOf 20]) (customers shortageExample)
       [[0], [0]]) \<and>
   totalRevenue (calculateResults [[10], [0]]
       (suppliers shortageExample @ [fictitiousSupplierOf 20]) (customers shortageExample)
       [[0], [0]]) = 200"
proof -
  have "totalRevenue (calculateResults [[10], [20]]
       (suppliers shortageExample @ [fictitiousSupplierOf 20]) (customers shortageExample)
       [[0], [0]]) = 600"
    by code_simp
  moreover have "totalRevenue (calculateResults [[10], [0]]
       (suppliers shortageExample @ [fictitiousSupplierOf 20]) (customers shortageExample)
       [[0], [0]]) = 200"
    by code_simp
  moreover have "isFictitiousSupplier ((suppliers shortageExample @ [fictitiousSupplierOf 20]) ! 1)"
    by code_simp
  ultimately show ?thesis
    by (simp add: solve_shortageExample balance_shortageExample) (simp add: shortageSolution_def)
qed

section \<open>The initial plan saturates every row and column\<close>

lemma sum_list_update_real:
  "i < length xs \<Longrightarrow> sum_list (xs[i := y]) = sum_list xs - xs ! i + (y::real)"
proof (induction xs arbitrary: i)
  case Nil
  then show ?case by simp
next
  case (Cons x xs)
  then show ?case by (cases i) simp_all
qed

lemma shaped_nth: "shaped m n M \<Longrightarrow> i < m \<Longrightarrow> length (M ! i) = n"
  by (simp add: shaped_def list_all_length)

lemma shaped_length: "shaped m n M \<Longrightarrow> length M = m"
  by (simp add: shaped_def)

lemma shaped_update:
  "shaped m n M \<Longrightarrow> length r = n \<Longrightarrow> shaped m n (M[i := r])"
  by (cases "i < length M") (auto simp: shaped_def list_all_length nth_list_update)

lemma shaped_zeroMatrix: "shaped m n (zeroMatrix m n)"
  by (simp add: shaped_def zeroMatrix_def list_all_length)

lemma rowSum_update:
  "i < length plan \<Longrightarrow> rowSum (plan[i := r]) i' = (if i' = i then sum_list r else rowSum plan i')"
  by (simp add: rowSum_def)

lemma colSum_update:
  "i < length plan \<Longrightarrow> colSum (plan[i := r]) j = colSum plan j - plan ! i ! j + r ! j"
  by (simp add: colSum_def map_update sum_list_update_real)

lemma positives_pos: "i < length xs \<Longrightarrow> xs ! i > 0 \<Longrightarrow> positives xs \<ge> 1"
proof -
  assume "i < length xs" "xs ! i > 0"
  then have "xs ! i \<in> set (filter (\<lambda>x. x > 0) xs)" by simp
  then have "filter (\<lambda>x. x > 0) xs \<noteq> []" by force
  then show ?thesis by (cases "filter (\<lambda>x. x > 0) xs") (simp_all add: positives_def)
qed

lemma positives_0: "positives xs = 0 \<longleftrightarrow> (\<forall>x \<in> set xs. \<not> x > 0)"
  by (simp add: positives_def filter_empty_conv)

lemma fold_scanCell_None:
  "fold (scanCell Z rs rd) cs best = None \<Longrightarrow>
   best = None \<and> (\<forall>(i, j) \<in> set cs. \<not> (rs ! i > 0 \<and> rd ! j > 0))"
proof (induction cs arbitrary: best)
  case Nil
  then show ?case by simp
next
  case (Cons c cs)
  from Cons.prems have "fold (scanCell Z rs rd) cs (scanCell Z rs rd c best) = None"
    by simp
  from Cons.IH [OF this] show ?case
    by (auto simp: scanCell_def split: prod.splits if_splits option.splits)
qed

lemma findMaxCell_None:
  assumes "findMaxCell Z rs rd = None" "i < length rs" "j < length rd"
  shows "\<not> (rs ! i > 0 \<and> rd ! j > 0)"
  using fold_scanCell_None [OF assms(1) [unfolded findMaxCell_def]] assms(2,3)
  by (auto simp: set_cells)

lemma memInv_step:
  assumes inv: "memInv sp dm (plan, rs, rd, k)"
    and cell: "findMaxCell Z rs rd = Some (v, i, j)"
  shows "memInv sp dm
           (plan[i := (plan ! i)[j := min (rs ! i) (rd ! j)]],
            rs[i := rs ! i - min (rs ! i) (rd ! j)],
            rd[j := rd ! j - min (rs ! i) (rd ! j)], k + 1)"
proof -
  let ?a = "min (rs ! i) (rd ! j)"
  let ?plan = "plan[i := (plan ! i)[j := ?a]]"
  let ?rs = "rs[i := rs ! i - ?a]"
  let ?rd = "rd[j := rd ! j - ?a]"
  from findMaxCell_Some [OF cell]
  have i: "i < length rs" and j: "j < length rd" and pi: "rs ! i > 0" and pj: "rd ! j > 0"
    by simp_all
  from inv have len: "length rs = length sp" "length rd = length dm"
    and sh: "shaped (length sp) (length dm) plan"
    and rows: "\<And>i'. i' < length sp \<Longrightarrow> 0 \<le> rs ! i' \<and> rowSum plan i' + rs ! i' = sp ! i'"
    and cols: "\<And>j'. j' < length dm \<Longrightarrow> 0 \<le> rd ! j' \<and> colSum plan j' + rd ! j' = dm ! j'"
    and ents: "\<And>i' j'. i' < length sp \<Longrightarrow> j' < length dm \<Longrightarrow>
                 0 \<le> plan ! i' ! j' \<and> (0 < rs ! i' \<and> 0 < rd ! j' \<longrightarrow> plan ! i' ! j' = 0)"
    and sums: "sum_list rs = sum_list rd"
    and cnt: "k + positives rs + positives rd \<le> length sp + length dm"
    by (simp_all add: memInv_def)
  have im: "i < length sp" and jn: "j < length dm" using i j len by simp_all
  have lp: "length plan = length sp" using sh by (rule shaped_length)
  have lrow: "\<And>i'. i' < length sp \<Longrightarrow> length (plan ! i') = length dm"
    using sh by (rule shaped_nth)
  have zero: "plan ! i ! j = 0" using ents [OF im jn] pi pj by simp
  have a_pos: "0 < ?a" using pi pj by simp
  have sh': "shaped (length sp) (length dm) ?plan"
    using sh by (rule shaped_update) (simp add: lrow im)
  have rows': "\<And>i'. i' < length sp \<Longrightarrow> 0 \<le> ?rs ! i' \<and> rowSum ?plan i' + ?rs ! i' = sp ! i'"
  proof -
    fix i' assume i': "i' < length sp"
    show "0 \<le> ?rs ! i' \<and> rowSum ?plan i' + ?rs ! i' = sp ! i'"
    proof (cases "i' = i")
      case True
      have "rowSum ?plan i = rowSum plan i + ?a"
        using im jn zero by (simp add: rowSum_update lp sum_list_update_real lrow) (simp add: rowSum_def)
      with rows [OF im] True i show ?thesis by simp
    next
      case False
      with rows [OF i'] im show ?thesis by (simp add: rowSum_update lp)
    qed
  qed
  have cols': "\<And>j'. j' < length dm \<Longrightarrow> 0 \<le> ?rd ! j' \<and> colSum ?plan j' + ?rd ! j' = dm ! j'"
  proof -
    fix j' assume j': "j' < length dm"
    show "0 \<le> ?rd ! j' \<and> colSum ?plan j' + ?rd ! j' = dm ! j'"
    proof (cases "j' = j")
      case True
      have "colSum ?plan j = colSum plan j + ?a"
        using im jn zero by (simp add: colSum_update lp lrow)
      with cols [OF jn] True j show ?thesis by simp
    next
      case False
      have "colSum ?plan j' = colSum plan j'"
        using im False by (simp add: colSum_update lp)
      with cols [OF j'] False show ?thesis by simp
    qed
  qed
  have ents': "\<And>i' j'. i' < length sp \<Longrightarrow> j' < length dm \<Longrightarrow>
                 0 \<le> ?plan ! i' ! j' \<and> (0 < ?rs ! i' \<and> 0 < ?rd ! j' \<longrightarrow> ?plan ! i' ! j' = 0)"
  proof -
    fix i' j' assume i': "i' < length sp" and j': "j' < length dm"
    have rs_le: "?rs ! i' \<le> rs ! i'" using a_pos i by (cases "i' = i") simp_all
    have rd_le: "?rd ! j' \<le> rd ! j'" using a_pos j by (cases "j' = j") simp_all
    show "0 \<le> ?plan ! i' ! j' \<and> (0 < ?rs ! i' \<and> 0 < ?rd ! j' \<longrightarrow> ?plan ! i' ! j' = 0)"
    proof (cases "i' = i \<and> j' = j")
      case True
      then have "?plan ! i' ! j' = ?a" using im jn by (simp add: lp lrow)
      moreover have "\<not> (0 < ?rs ! i \<and> 0 < ?rd ! j)" using i j by (simp add: min_def)
      ultimately show ?thesis using a_pos True by auto
    next
      case False
      then have "?plan ! i' ! j' = plan ! i' ! j'"
        using im by (cases "i' = i") (simp_all add: lp)
      with ents [OF i' j'] rs_le rd_le show ?thesis by auto
    qed
  qed
  have sums': "sum_list ?rs = sum_list ?rd"
    using sums i j by (simp add: sum_list_update_real)
  have dec: "positives ?rs + positives ?rd < positives rs + positives rd"
    using i j pi pj by (rule allocation_decreases)
  have two: "2 \<le> positives rs + positives rd"
    using positives_pos [OF i pi] positives_pos [OF j pj] by simp
  have cnt': "k + 1 + positives ?rs + positives ?rd \<le> length sp + length dm"
    using dec cnt by simp
  have last: "positives ?rs + positives ?rd = 0 \<longrightarrow> k + 1 \<le> length sp + length dm - 1"
    using two cnt by arith
  show ?thesis
    unfolding memInv_def prod.case
    using len sh' rows' cols' ents' sums' cnt' last by simp
qed


lemma nonneg_sum_zero:
  assumes "\<And>i. i < length xs \<Longrightarrow> 0 \<le> (xs ! i :: real)" "sum_list xs = 0"
  shows "\<forall>x \<in> set xs. x = 0"
proof -
  have "\<And>x. x \<in> set xs \<Longrightarrow> 0 \<le> x"
    using assms(1) by (auto simp: in_set_conv_nth)
  then show ?thesis
    using assms(2) by (simp add: sum_list_nonneg_eq_0_iff)
qed

lemma all_zero_sum: "\<forall>x \<in> set xs. x = (0::real) \<Longrightarrow> sum_list xs = 0"
  by (induction xs) simp_all

lemma memInv_exit:
  assumes inv: "memInv sp dm (plan, rs, rd, k)"
    and stop: "\<not> ((\<exists>s \<in> set rs. s > 0) \<and> (\<exists>d \<in> set rd. d > 0))"
  shows "saturated sp dm plan \<and> k \<le> length sp + length dm - 1"
proof -
  from inv have len: "length rs = length sp" "length rd = length dm"
    and sh: "shaped (length sp) (length dm) plan"
    and rows: "\<And>i. i < length sp \<Longrightarrow> 0 \<le> rs ! i \<and> rowSum plan i + rs ! i = sp ! i"
    and cols: "\<And>j. j < length dm \<Longrightarrow> 0 \<le> rd ! j \<and> colSum plan j + rd ! j = dm ! j"
    and ents: "\<And>i j. i < length sp \<Longrightarrow> j < length dm \<Longrightarrow> 0 \<le> plan ! i ! j"
    and sums: "sum_list rs = sum_list rd"
    and last: "positives rs + positives rd = 0 \<longrightarrow> k \<le> length sp + length dm - 1"
    by (simp_all add: memInv_def)
  have rs0: "\<And>i. i < length rs \<Longrightarrow> 0 \<le> rs ! i" using rows len by simp
  have rd0: "\<And>j. j < length rd \<Longrightarrow> 0 \<le> rd ! j" using cols len by simp
  have zr: "(\<forall>x \<in> set rs. x = 0) \<and> (\<forall>x \<in> set rd. x = 0)"
  proof (cases "\<exists>s \<in> set rs. s > 0")
    case True
    with stop have "\<forall>d \<in> set rd. \<not> d > 0" by blast
    then have "\<forall>d \<in> set rd. d = 0" using rd0 by (force simp: in_set_conv_nth)
    moreover from this have "sum_list rs = 0" using sums by (simp add: all_zero_sum)
    ultimately show ?thesis using nonneg_sum_zero [OF rs0] by blast
  next
    case False
    then have "\<forall>s \<in> set rs. s = 0" using rs0 by (force simp: in_set_conv_nth)
    moreover from this have "sum_list rd = 0" using sums by (simp add: all_zero_sum)
    ultimately show ?thesis using nonneg_sum_zero [OF rd0] by blast
  qed
  have r: "\<And>i. i < length sp \<Longrightarrow> rs ! i = 0" using zr len by simp
  have d: "\<And>j. j < length dm \<Longrightarrow> rd ! j = 0" using zr len by simp
  have "positives rs + positives rd = 0" using zr by (auto simp: positives_0)
  with last have "k \<le> length sp + length dm - 1" by simp
  moreover have "saturated sp dm plan"
    unfolding saturated_def using sh ents rows cols r d by simp
  ultimately show ?thesis by simp
qed

lemma memLoop_saturates:
  "memInv sp dm st \<Longrightarrow> memLoop Z st = (plan', k') \<Longrightarrow>
   saturated sp dm plan' \<and> k' \<le> length sp + length dm - 1"
proof (induction Z st rule: memLoop.induct)
  case (1 Z plan rs rd k)
  show ?case
  proof (cases "(\<exists>s \<in> set rs. s > 0) \<and> (\<exists>d \<in> set rd. d > 0)")
    case False
    with "1.prems"(2) have "plan' = plan" "k' = k" by (simp_all add: memLoop.simps)
    with memInv_exit [OF "1.prems"(1) False] show ?thesis by simp
  next
    case True
    then obtain i j where ij: "i < length rs" "rs ! i > 0" "j < length rd" "rd ! j > 0"
      by (auto simp: in_set_conv_nth)
    show ?thesis
    proof (cases "findMaxCell Z rs rd")
      case None
      from findMaxCell_None [OF None ij(1) ij(3)] ij show ?thesis by simp
    next
      case (Some best)
      obtain v mi mj where best: "best = (v, mi, mj)" by (cases best)
      have cell: "findMaxCell Z rs rd = Some (v, mi, mj)" using Some best by simp
      have next_inv: "memInv sp dm
           (plan[mi := (plan ! mi)[mj := min (rs ! mi) (rd ! mj)]],
            rs[mi := rs ! mi - min (rs ! mi) (rd ! mj)],
            rd[mj := rd ! mj - min (rs ! mi) (rd ! mj)], k + 1)"
        using "1.prems"(1) cell by (rule memInv_step)
      have "memLoop Z (plan[mi := (plan ! mi)[mj := min (rs ! mi) (rd ! mj)]],
            rs[mi := rs ! mi - min (rs ! mi) (rd ! mj)],
            rd[mj := rd ! mj - min (rs ! mi) (rd ! mj)], k + 1) = (plan', k')"
        using "1.prems"(2) True cell by (simp add: memLoop.simps)
      with "1.IH" [OF True Some best [symmetric] refl next_inv] show ?thesis by simp
    qed
  qed
qed



lemma rowSum_zeroMatrix: "i < m \<Longrightarrow> rowSum (zeroMatrix m n) i = 0"
  by (simp add: rowSum_def zeroMatrix_def sum_list_replicate)

lemma colSum_zeroMatrix: "j < n \<Longrightarrow> colSum (zeroMatrix m n) j = 0"
  by (simp add: colSum_def zeroMatrix_def sum_list_replicate)

lemma positives_le: "positives xs \<le> length xs"
  by (simp add: positives_def)

lemma memInv_initial:
  assumes "\<forall>s \<in> set ss. supplier_supply s > 0" "\<forall>c \<in> set cs. demand c > 0"
    and "reduceSum supplier_supply ss = reduceSum demand cs"
  shows "memInv (map supplier_supply ss) (map demand cs)
           (zeroMatrix (length ss) (length cs), map supplier_supply ss, map demand cs, 0)"
proof -
  have "positives (map supplier_supply ss) + positives (map demand cs) \<le> length ss + length cs"
    using positives_le [of "map supplier_supply ss"] positives_le [of "map demand cs"] by simp
  moreover have "\<And>i. i < length ss \<Longrightarrow> 0 \<le> supplier_supply (ss ! i)"
    using assms(1) by (force simp: in_set_conv_nth)
  moreover have "\<And>j. j < length cs \<Longrightarrow> 0 \<le> demand (cs ! j)"
    using assms(2) by (force simp: in_set_conv_nth)
  moreover have "\<And>i j. i < length ss \<Longrightarrow> j < length cs \<Longrightarrow>
                   zeroMatrix (length ss) (length cs) ! i ! j = 0"
    by (simp add: zeroMatrix_def)
  ultimately show ?thesis
    using assms(3)
    by (simp add: memInv_def shaped_zeroMatrix rowSum_zeroMatrix colSum_zeroMatrix
        reduceSum_sum_list)
qed

lemma findOptimalTransportationRun_saturated:
  assumes "\<forall>s \<in> set ss. supplier_supply s > 0" "\<forall>c \<in> set cs. demand c > 0"
    and "reduceSum supplier_supply ss = reduceSum demand cs"
  shows "saturated (map supplier_supply ss) (map demand cs) (findOptimalTransportation Z ss cs)"
    and "snd (findOptimalTransportationRun Z ss cs) \<le> length ss + length cs - 1"
proof -
  obtain plan' k' where run: "findOptimalTransportationRun Z ss cs = (plan', k')"
    by (cases "findOptimalTransportationRun Z ss cs")
  from memLoop_saturates [OF memInv_initial [OF assms] run [unfolded findOptimalTransportationRun_def]]
  show "saturated (map supplier_supply ss) (map demand cs) (findOptimalTransportation Z ss cs)"
    and "snd (findOptimalTransportationRun Z ss cs) \<le> length ss + length cs - 1"
    by (simp_all add: findOptimalTransportation_def run)
qed

lemma reduceSum_row: "reduceSum (\<lambda>val. val) (plan ! i) = rowSum plan i"
  by (simp add: reduceSum_sum_list rowSum_def)

lemma reduceSum_col: "reduceSum (\<lambda>row. row ! j) plan = colSum plan j"
  by (simp add: reduceSum_sum_list colSum_def)

lemma find_never: "find (\<lambda>k. False) xs = None"
  by (induction xs) simp_all

lemma improveSolution_fixed:
  assumes "rowSum plan (supplierIndex opp) = supplier_supply (ss ! supplierIndex opp)"
    and "colSum plan (customerIndex opp) = demand (cs ! customerIndex opp)"
  shows "improveSolution plan opp ss cs = plan"
  by (simp add: improveSolution_def Let_def reduceSum_row reduceSum_col assms find_never)

lemma improveSolution_saturated:
  assumes "saturated (map supplier_supply ss) (map demand cs) plan"
    and "supplierIndex opp < length ss" "customerIndex opp < length cs"
  shows "improveSolution plan opp ss cs = plan"
  using assms by (intro improveSolution_fixed) (simp_all add: saturated_def)

lemma arraysEqual_refl: "arraysEqual a a"
  by (simp add: arraysEqual_def list_all_iff)

lemma opportunityAt_indices:
  "opp \<in> set (opportunityAt Z plan dv (i, j)) \<Longrightarrow> supplierIndex opp = i \<and> customerIndex opp = j"
  by (auto simp: opportunityAt_def Let_def split: if_splits)

lemma checkOptimality_indices:
  assumes "opp \<in> set (improvements (checkOptimality Z plan ss cs))"
  shows "supplierIndex opp < length ss \<and> customerIndex opp < length cs"
proof -
  from assms obtain c where c: "c \<in> set (cells (length ss) (length cs))"
    and opp: "opp \<in> set (opportunityAt Z plan
        (calculateDualVariables Z plan (length ss) (length cs)) c)"
    by (auto simp: checkOptimality_def Let_def)
  obtain i j where "c = (i, j)" by (cases c)
  with c opp opportunityAt_indices [of opp Z plan _ i j] show ?thesis
    by (simp add: set_cells)
qed

lemma checkOptimality_isOptimal:
  "oc_isOptimal (checkOptimality Z plan ss cs) \<longleftrightarrow> improvements (checkOptimality Z plan ss cs) = []"
  by (simp add: checkOptimality_def Let_def)

lemma loopPass_saturated:
  assumes "saturated (map supplier_supply ss) (map demand cs) plan"
  shows "loopPass Z ss cs plan =
           (if oc_isOptimal (checkOptimality Z plan ss cs) then Next plan True
            else Break NoPlanChange)"
proof (cases "oc_isOptimal (checkOptimality Z plan ss cs)")
  case True
  then show ?thesis by (simp add: loopPass_def Let_def)
next
  case False
  then have ne: "improvements (checkOptimality Z plan ss cs) \<noteq> []"
    by (simp add: checkOptimality_isOptimal)
  then have "hd (improvements (checkOptimality Z plan ss cs))
               \<in> set (improvements (checkOptimality Z plan ss cs))"
    by simp
  from checkOptimality_indices [OF this]
  have "improveSolution plan (hd (improvements (checkOptimality Z plan ss cs))) ss cs = plan"
    using assms by (simp add: improveSolution_saturated)
  with False ne show ?thesis
    by (simp add: loopPass_def Let_def arraysEqual_refl)
qed

lemma optimize_saturated:
  assumes "saturated (map supplier_supply ss) (map demand cs) plan"
  shows "optimize Z ss cs plan =
           (if oc_isOptimal (checkOptimality Z plan ss cs) then (plan, 0, True, InitialOptimal)
            else (plan, 0, False, NoPlanChange))"
  by (simp add: optimize_def improveLoop.simps loopPass_saturated [OF assms] maxIterations_def)


lemma balanced_lists_positive:
  assumes "\<not> structurallyInvalid problem"
  shows "\<forall>s \<in> set (bp_suppliers (balanceProblem (suppliers problem) (customers problem))).
           supplier_supply s > 0"
    and "\<forall>c \<in> set (bp_customers (balanceProblem (suppliers problem) (customers problem))).
           demand c > 0"
  using assms
  by (auto simp: structurallyInvalid_def balanceProblem_def Let_def fictitiousSupplierOf_def
      fictitiousCustomerOf_def not_le)

lemma solve_plan:
  assumes "solveMiddlemanProblem ts te problem = Inr s"
  defines "bss \<equiv> bp_suppliers (balanceProblem (suppliers problem) (customers problem))"
    and "bcs \<equiv> bp_customers (balanceProblem (suppliers problem) (customers problem))"
  defines "Z \<equiv> calculateProfitMatrix bss bcs
                  (validateTransportationCosts (transportationCosts problem) (length bss) (length bcs))"
  shows "saturated (map supplier_supply bss) (map demand bcs) (findOptimalTransportation Z bss bcs)"
    and "transportationPlan s = findOptimalTransportation Z bss bcs"
    and "iterations s = 0"
    and "isOptimal s = oc_isOptimal (checkOptimality Z (findOptimalTransportation Z bss bcs) bss bcs)"
    and "optimize Z bss bcs (findOptimalTransportation Z bss bcs) =
           (transportationPlan s, iterations s, isOptimal s,
            if isOptimal s then InitialOptimal else NoPlanChange)"
proof -
  have valid: "\<not> structurallyInvalid problem"
    using assms(1) by (rule solve_Inr)
  show sat: "saturated (map supplier_supply bss) (map demand bcs) (findOptimalTransportation Z bss bcs)"
    unfolding bss_def bcs_def
    by (rule findOptimalTransportationRun_saturated)
       (rule balanced_lists_positive [OF valid] balanceProblem_totals)+
  note opt = optimize_saturated [OF sat, of Z]
  from solve_Inr(3,4,5) [OF assms(1)]
  show "transportationPlan s = findOptimalTransportation Z bss bcs"
    and "iterations s = 0"
    and "isOptimal s = oc_isOptimal (checkOptimality Z (findOptimalTransportation Z bss bcs) bss bcs)"
    unfolding bss_def [symmetric] bcs_def [symmetric] Z_def [symmetric]
    by (simp_all add: opt)
  then show "optimize Z bss bcs (findOptimalTransportation Z bss bcs) =
           (transportationPlan s, iterations s, isOptimal s,
            if isOptimal s then InitialOptimal else NoPlanChange)"
    by (simp add: opt)
qed


section \<open>The examples, evaluated\<close>

lemma solve_singleExample: "solveMiddlemanProblem 0 1 singleExample = Inr singleSolution"
  by code_simp

lemma solve_smallExample: "solveMiddlemanProblem 0 1 smallExample = Inr smallSolution"
  by code_simp

lemma solve_balancedExample: "solveMiddlemanProblem 0 1 balancedExample = Inr balancedSolution"
  by code_simp

lemma balance_smallExample:
  "balanceProblem (suppliers smallExample) (customers smallExample) =
     \<lparr>bp_suppliers = suppliers smallExample,
      bp_customers = customers smallExample @ [fictitiousCustomerOf 20],
      bp_isBalanced = False,
      fictitiousSupplier = None,
      fictitiousCustomer = Some (fictitiousCustomerOf 20),
      originalSupplyTotal = 120, originalDemandTotal = 100\<rparr>"
  by code_simp

lemma balance_balancedExample:
  "balanceProblem (suppliers balancedExample) (customers balancedExample) =
     \<lparr>bp_suppliers = suppliers balancedExample,
      bp_customers = customers balancedExample,
      bp_isBalanced = True,
      fictitiousSupplier = None,
      fictitiousCustomer = None,
      originalSupplyTotal = 20, originalDemandTotal = 20\<rparr>"
  by code_simp

lemma balance_singleExample:
  "balanceProblem (suppliers singleExample) (customers singleExample) =
     \<lparr>bp_suppliers = suppliers singleExample,
      bp_customers = customers singleExample,
      bp_isBalanced = True,
      fictitiousSupplier = None,
      fictitiousCustomer = None,
      originalSupplyTotal = 10, originalDemandTotal = 10\<rparr>"
  by code_simp

section \<open>Feasibility of the plans\<close>




section \<open>The improver on a saturated plan\<close>

text \<open>
  Claim C2, as the code has it. When row \<open>i*\<close> and column \<open>j*\<close> of the plan are saturated
  (the sums that \<open>improveSolution\<close> computes with \<open>reduce\<close> equal the supply and the
  demand), \<open>improveSolution\<close> returns the plan it was given: the available supply and the
  unmet demand are both 0, so the direct allocation and both reallocation scans do
  nothing. Consequently, in every run of the solver in which the initial plan of the
  Maximum Element Method saturates every row and column of the balanced lists, the final
  plan is that initial plan and the iteration count is 0. If the initial plan passes the
  optimality test, the loop is not entered and the solution is reported optimal;
  otherwise the first pass of the loop ends in the \<open>break\<close> for an unchanged plan and the
  solution is reported not optimal.
\<close>

theorem improveSolution_saturated_fixpoint:
  "(shaped (length ss) (length cs) plan \<and>
    supplierIndex opp < length ss \<and> customerIndex opp < length cs \<and>
    reduceSum (\<lambda>val. val) (plan ! supplierIndex opp) = supplier_supply (ss ! supplierIndex opp) \<and>
    reduceSum (\<lambda>row. row ! customerIndex opp) plan = demand (cs ! customerIndex opp) \<longrightarrow>
      improveSolution plan opp ss cs = plan) \<and>
   (let bss = bp_suppliers (balanceProblem (suppliers problem) (customers problem));
        bcs = bp_customers (balanceProblem (suppliers problem) (customers problem));
        Z = profitMatrix s;
        plan0 = findOptimalTransportation Z bss bcs
    in solveMiddlemanProblem ts te problem = Inr s \<and>
       (\<forall>i < length bss. reduceSum (\<lambda>val. val) (plan0 ! i) = supplier_supply (bss ! i)) \<and>
       (\<forall>j < length bcs. reduceSum (\<lambda>row. row ! j) plan0 = demand (bcs ! j)) \<longrightarrow>
          transportationPlan s = plan0 \<and> iterations s = 0 \<and>
          (isOptimal s \<longrightarrow>
             oc_isOptimal (checkOptimality Z plan0 bss bcs) \<and>
             optimize Z bss bcs plan0 = (plan0, 0, True, InitialOptimal)) \<and>
          (\<not> isOptimal s \<longrightarrow>
             \<not> oc_isOptimal (checkOptimality Z plan0 bss bcs) \<and>
             loopPass Z bss bcs plan0 = Break NoPlanChange \<and>
             improveLoop Z bss bcs plan0 0 False = (plan0, 0, False, NoPlanChange) \<and>
             optimize Z bss bcs plan0 = (plan0, 0, False, NoPlanChange)))"
proof (intro conjI)
  show "shaped (length ss) (length cs) plan \<and>
    supplierIndex opp < length ss \<and> customerIndex opp < length cs \<and>
    reduceSum (\<lambda>val. val) (plan ! supplierIndex opp) = supplier_supply (ss ! supplierIndex opp) \<and>
    reduceSum (\<lambda>row. row ! customerIndex opp) plan = demand (cs ! customerIndex opp) \<longrightarrow>
      improveSolution plan opp ss cs = plan"
    by (simp add: improveSolution_def Let_def find_never)
next
  let ?bss = "bp_suppliers (balanceProblem (suppliers problem) (customers problem))"
  let ?bcs = "bp_customers (balanceProblem (suppliers problem) (customers problem))"
  let ?Z = "profitMatrix s"
  let ?plan0 = "findOptimalTransportation ?Z ?bss ?bcs"
  have "transportationPlan s = ?plan0 \<and> iterations s = 0 \<and>
          (isOptimal s \<longrightarrow>
             oc_isOptimal (checkOptimality ?Z ?plan0 ?bss ?bcs) \<and>
             optimize ?Z ?bss ?bcs ?plan0 = (?plan0, 0, True, InitialOptimal)) \<and>
          (\<not> isOptimal s \<longrightarrow>
             \<not> oc_isOptimal (checkOptimality ?Z ?plan0 ?bss ?bcs) \<and>
             loopPass ?Z ?bss ?bcs ?plan0 = Break NoPlanChange \<and>
             improveLoop ?Z ?bss ?bcs ?plan0 0 False = (?plan0, 0, False, NoPlanChange) \<and>
             optimize ?Z ?bss ?bcs ?plan0 = (?plan0, 0, False, NoPlanChange))"
    if h: "solveMiddlemanProblem ts te problem = Inr s"
      and rows: "\<forall>i < length ?bss. reduceSum (\<lambda>val. val) (?plan0 ! i) = supplier_supply (?bss ! i)"
      and cols: "\<forall>j < length ?bcs. reduceSum (\<lambda>row. row ! j) ?plan0 = demand (?bcs ! j)"
  proof -
    have Z: "?Z = calculateProfitMatrix ?bss ?bcs
            (validateTransportationCosts (transportationCosts problem) (length ?bss) (length ?bcs))"
      using h by (rule solve_Inr)
    have fixed: "improveSolution ?plan0 opp ?bss ?bcs = ?plan0"
      if "supplierIndex opp < length ?bss" "customerIndex opp < length ?bcs" for opp
      using that rows cols by (simp add: improveSolution_def Let_def find_never)
    have pass: "loopPass ?Z ?bss ?bcs ?plan0 = Break NoPlanChange"
      if no: "\<not> oc_isOptimal (checkOptimality ?Z ?plan0 ?bss ?bcs)"
    proof -
      from no have ne: "improvements (checkOptimality ?Z ?plan0 ?bss ?bcs) \<noteq> []"
        by (simp add: checkOptimality_isOptimal)
      then have "hd (improvements (checkOptimality ?Z ?plan0 ?bss ?bcs))
                   \<in> set (improvements (checkOptimality ?Z ?plan0 ?bss ?bcs))"
        by simp
      from checkOptimality_indices [OF this]
      have "improveSolution ?plan0 (hd (improvements (checkOptimality ?Z ?plan0 ?bss ?bcs)))
              ?bss ?bcs = ?plan0"
        by (simp add: fixed)
      with no ne show ?thesis
        by (simp add: loopPass_def Let_def arraysEqual_refl)
    qed
    have loop: "improveLoop ?Z ?bss ?bcs ?plan0 0 False = (?plan0, 0, False, NoPlanChange)"
      if "\<not> oc_isOptimal (checkOptimality ?Z ?plan0 ?bss ?bcs)"
      using that by (simp add: improveLoop.simps pass maxIterations_def)
    have opt: "optimize ?Z ?bss ?bcs ?plan0 =
           (if oc_isOptimal (checkOptimality ?Z ?plan0 ?bss ?bcs)
            then (?plan0, 0, True, InitialOptimal) else (?plan0, 0, False, NoPlanChange))"
      by (simp add: optimize_def loop)
    from solve_Inr(3,4,5) [OF h]
    have "transportationPlan s = ?plan0" "iterations s = 0"
      "isOptimal s = oc_isOptimal (checkOptimality ?Z ?plan0 ?bss ?bcs)"
      unfolding Z [symmetric] by (simp_all add: opt)
    then show ?thesis
      using pass loop opt by (cases "isOptimal s") simp_all
  qed
  then show "let bss = ?bss; bcs = ?bcs; Z = ?Z; plan0 = findOptimalTransportation Z bss bcs
    in solveMiddlemanProblem ts te problem = Inr s \<and>
       (\<forall>i < length bss. reduceSum (\<lambda>val. val) (plan0 ! i) = supplier_supply (bss ! i)) \<and>
       (\<forall>j < length bcs. reduceSum (\<lambda>row. row ! j) plan0 = demand (bcs ! j)) \<longrightarrow>
          transportationPlan s = plan0 \<and> iterations s = 0 \<and>
          (isOptimal s \<longrightarrow>
             oc_isOptimal (checkOptimality Z plan0 bss bcs) \<and>
             optimize Z bss bcs plan0 = (plan0, 0, True, InitialOptimal)) \<and>
          (\<not> isOptimal s \<longrightarrow>
             \<not> oc_isOptimal (checkOptimality Z plan0 bss bcs) \<and>
             loopPass Z bss bcs plan0 = Break NoPlanChange \<and>
             improveLoop Z bss bcs plan0 0 False = (plan0, 0, False, NoPlanChange) \<and>
             optimize Z bss bcs plan0 = (plan0, 0, False, NoPlanChange))"
    unfolding Let_def by blast
qed

text \<open>The entering cell \<open>(0, 1)\<close> on the initial plan of \<open>balancedExample\<close>, and the run
  of the solver on that problem, which leaves the loop in its first pass.\<close>

theorem improveSolution_saturated_fixpoint_witness:
  "improveSolution [[10, 0], [0, 10]]
     \<lparr>supplierIndex = 0, customerIndex = 1, improvement = 9, currentProfit = 0,
      potentialProfit = 9\<rparr>
     (suppliers balancedExample) (customers balancedExample) = [[10, 0], [0, 10]] \<and>
   solveMiddlemanProblem 0 1 balancedExample = Inr balancedSolution \<and>
   transportationPlan balancedSolution =
     findOptimalTransportation [[10, 9], [9, 1]]
       (suppliers balancedExample) (customers balancedExample) \<and>
   improveLoop [[10, 9], [9, 1]] (suppliers balancedExample) (customers balancedExample)
     [[10, 0], [0, 10]] 0 False = ([[10, 0], [0, 10]], 0, False, NoPlanChange)"
proof -
  let ?ss = "suppliers balancedExample" and ?cs = "customers balancedExample"
  let ?opp = "\<lparr>supplierIndex = 0, customerIndex = 1, improvement = 9, currentProfit = 0,
      potentialProfit = 9 :: real\<rparr>"
  let ?Z = "[[10, 9], [9, 1 :: real]]"
  have hyp: "shaped (length ?ss) (length ?cs) [[10, 0], [0, 10 :: real]] \<and>
    supplierIndex ?opp < length ?ss \<and> customerIndex ?opp < length ?cs \<and>
    reduceSum (\<lambda>val. val) ([[10, 0], [0, 10]] ! supplierIndex ?opp) =
      supplier_supply (?ss ! supplierIndex ?opp) \<and>
    reduceSum (\<lambda>row. row ! customerIndex ?opp) [[10, 0], [0, 10]] =
      demand (?cs ! customerIndex ?opp)"
    by (simp add: balancedExample_def shaped_def reduceSum_def)
  from improveSolution_saturated_fixpoint [where ss = "?ss" and cs = "?cs"
      and plan = "[[10, 0], [0, 10]]" and opp = "?opp"] hyp
  have a: "improveSolution [[10, 0], [0, 10]] ?opp ?ss ?cs = [[10, 0], [0, 10]]"
    by blast
  have Z: "profitMatrix balancedSolution = ?Z"
    and notopt: "\<not> isOptimal balancedSolution"
    by (simp_all add: balancedSolution_def)
  have plan0: "findOptimalTransportation ?Z ?ss ?cs = [[10, 0], [0, 10]]"
    by code_simp
  have rows: "\<forall>i < length ?ss. reduceSum (\<lambda>val. val) (findOptimalTransportation ?Z ?ss ?cs ! i) =
      supplier_supply (?ss ! i)"
    unfolding plan0 by (simp add: balancedExample_def reduceSum_def less_Suc_eq)
  have cols: "\<forall>j < length ?cs. reduceSum (\<lambda>row. row ! j) (findOptimalTransportation ?Z ?ss ?cs) =
      demand (?cs ! j)"
    unfolding plan0 by (simp add: balancedExample_def reduceSum_def less_Suc_eq)
  have "let bss = bp_suppliers (balanceProblem ?ss ?cs);
            bcs = bp_customers (balanceProblem ?ss ?cs);
            Z = profitMatrix balancedSolution;
            plan0 = findOptimalTransportation Z bss bcs
        in solveMiddlemanProblem 0 1 balancedExample = Inr balancedSolution \<and>
       (\<forall>i < length bss. reduceSum (\<lambda>val. val) (plan0 ! i) = supplier_supply (bss ! i)) \<and>
       (\<forall>j < length bcs. reduceSum (\<lambda>row. row ! j) plan0 = demand (bcs ! j)) \<longrightarrow>
           transportationPlan balancedSolution = plan0 \<and> iterations balancedSolution = 0 \<and>
           (isOptimal balancedSolution \<longrightarrow>
              oc_isOptimal (checkOptimality Z plan0 bss bcs) \<and>
              optimize Z bss bcs plan0 = (plan0, 0, True, InitialOptimal)) \<and>
           (\<not> isOptimal balancedSolution \<longrightarrow>
              \<not> oc_isOptimal (checkOptimality Z plan0 bss bcs) \<and>
              loopPass Z bss bcs plan0 = Break NoPlanChange \<and>
              improveLoop Z bss bcs plan0 0 False = (plan0, 0, False, NoPlanChange) \<and>
              optimize Z bss bcs plan0 = (plan0, 0, False, NoPlanChange))"
    by (rule improveSolution_saturated_fixpoint [where problem = balancedExample
      and s = balancedSolution and ts = 0 and te = 1, THEN conjunct2])
  then have "solveMiddlemanProblem 0 1 balancedExample = Inr balancedSolution \<and>
       (\<forall>i < length ?ss. reduceSum (\<lambda>val. val) (findOptimalTransportation ?Z ?ss ?cs ! i) =
           supplier_supply (?ss ! i)) \<and>
       (\<forall>j < length ?cs. reduceSum (\<lambda>row. row ! j) (findOptimalTransportation ?Z ?ss ?cs) =
           demand (?cs ! j)) \<longrightarrow>
    transportationPlan balancedSolution = findOptimalTransportation ?Z ?ss ?cs \<and>
    (\<not> isOptimal balancedSolution \<longrightarrow>
       improveLoop ?Z ?ss ?cs (findOptimalTransportation ?Z ?ss ?cs) 0 False =
         (findOptimalTransportation ?Z ?ss ?cs, 0, False, NoPlanChange))"
    by (simp only: Let_def balance_balancedExample BalancedProblem.select_convs Z, blast)
  with notopt solve_balancedExample rows cols
  have b: "transportationPlan balancedSolution = findOptimalTransportation ?Z ?ss ?cs"
    and c: "improveLoop ?Z ?ss ?cs (findOptimalTransportation ?Z ?ss ?cs) 0 False =
         (findOptimalTransportation ?Z ?ss ?cs, 0, False, NoPlanChange)"
    by blast+
  from c have c': "improveLoop ?Z ?ss ?cs [[10, 0], [0, 10]] 0 False =
         ([[10, 0], [0, 10]], 0, False, NoPlanChange)"
    by (simp only: plan0)
  from a b c' solve_balancedExample show ?thesis by blast
qed

text \<open>
  Claim C2 as stated fails where it says that the loop stops by stagnation for every
  balanced problem: on \<open>singleExample\<close>, which is balanced, the initial plan
  \<open>[[10]]\<close> passes the optimality test, the loop is never entered, and the solution is
  reported optimal.
\<close>

theorem loop_not_entered_when_optimal:
  "solveMiddlemanProblem 0 1 singleExample = Inr singleSolution \<and>
   reduceSum supplier_supply (suppliers singleExample) = reduceSum demand (customers singleExample) \<and>
   isOptimal singleSolution \<and>
   findOptimalTransportation [[12]] (suppliers singleExample) (customers singleExample) = [[10]] \<and>
   optimize [[12]] (suppliers singleExample) (customers singleExample) [[10]] =
     ([[10]], 0, True, InitialOptimal)"
proof -
  have "reduceSum supplier_supply (suppliers singleExample) = reduceSum demand (customers singleExample)"
    by code_simp
  moreover have "isOptimal singleSolution"
    by (simp add: singleSolution_def)
  moreover have "findOptimalTransportation [[12]] (suppliers singleExample) (customers singleExample) = [[10]]"
    by code_simp
  moreover have "optimize [[12]] (suppliers singleExample) (customers singleExample) [[10]] =
     ([[10]], 0, True, InitialOptimal)"
    by code_simp
  ultimately show ?thesis using solve_singleExample by blast
qed

section \<open>Termination of the controller\<close>

lemma loopPass_Break:
  "loopPass Z ss cs plan = Break why \<Longrightarrow> why = NoPlanChange \<or> why = NoImprovements"
  by (auto simp: loopPass_def Let_def split: if_splits)

lemma improveLoop_exit:
  "improveLoop Z ss cs plan its opt = (plan', its', opt', why) \<Longrightarrow> its \<le> maxIterations \<Longrightarrow>
   its' \<le> maxIterations \<and>
   (why = LoopOptimal \<longrightarrow> opt') \<and>
   (why = NoPlanChange \<or> why = NoImprovements \<longrightarrow> \<not> opt') \<and>
   (why = IterationCap \<longrightarrow> \<not> opt' \<and> its' = maxIterations) \<and>
   why \<noteq> InitialOptimal"
proof (induction Z ss cs plan its opt rule: improveLoop.induct)
  case (1 Z ss cs plan its opt)
  show ?case
  proof (cases "\<not> opt \<and> its < maxIterations")
    case False
    with "1.prems" show ?thesis
      by (auto simp: improveLoop.simps split: if_splits)
  next
    case True
    show ?thesis
    proof (cases "loopPass Z ss cs plan")
      case (Break r)
      with True "1.prems" loopPass_Break [OF Break] show ?thesis
        by (auto simp: improveLoop.simps)
    next
      case (Next plan2 opt2)
      with True "1.prems"(1)
      have "improveLoop Z ss cs plan2 (its + 1) opt2 = (plan', its', opt', why)"
        by (simp add: improveLoop.simps)
      moreover have "its + 1 \<le> maxIterations" using True by simp
      ultimately show ?thesis by (rule "1.IH" [OF True Next])
    qed
  qed
qed

lemma optimize_exit:
  assumes "optimize Z ss cs start = (plan, its, opt, why)"
  shows "its \<le> 20 \<and>
         (why = InitialOptimal \<or> why = LoopOptimal \<longrightarrow> opt) \<and>
         (why = NoPlanChange \<or> why = NoImprovements \<longrightarrow> \<not> opt) \<and>
         (why = IterationCap \<longrightarrow> \<not> opt \<and> its = 20)"
proof (cases "oc_isOptimal (checkOptimality Z start ss cs)")
  case True
  with assms show ?thesis by (auto simp: optimize_def)
next
  case False
  with assms have "improveLoop Z ss cs start 0 False = (plan, its, opt, why)"
    by (simp add: optimize_def)
  from improveLoop_exit [OF this] show ?thesis
    by (simp add: maxIterations_def)
qed

text \<open>
  Claim C8. On every problem that passes validation the solver returns a solution, and
  its iteration count is at most 20. (Every loop of the model is a function with a
  termination proof: the builder's loop ends because each step closes a row or a
  column, the potentials' loop and the improvement loop because their counters are
  bounded by 50 and 20.) The controller, from whatever plan it is started on, ends
  with a count of at most 20 through one of its exits: the optimality test succeeded
  (before the loop or in it), and the result is flagged optimal; or the improved plan
  equalled the previous one, or no opportunity existed; or the count reached 20; and in
  these last cases the result is flagged not optimal.
\<close>

theorem solve_terminates:
  "(\<not> structurallyInvalid problem \<longrightarrow>
      (\<exists>s. solveMiddlemanProblem ts te problem = Inr s \<and> iterations s \<le> 20)) \<and>
   (solveMiddlemanProblem ts te problem = Inr s \<longrightarrow>
      iterations s \<le> 20 \<and>
      (\<exists>why. optimize (profitMatrix s)
                (bp_suppliers (balanceProblem (suppliers problem) (customers problem)))
                (bp_customers (balanceProblem (suppliers problem) (customers problem)))
                (findOptimalTransportation (profitMatrix s)
                   (bp_suppliers (balanceProblem (suppliers problem) (customers problem)))
                   (bp_customers (balanceProblem (suppliers problem) (customers problem)))) =
              (transportationPlan s, iterations s, isOptimal s, why))) \<and>
   (shaped (length ss) (length cs) Z \<and> shaped (length ss) (length cs) start \<and>
    optimize Z ss cs start = (plan, its, opt, why) \<longrightarrow>
      its \<le> 20 \<and>
      (why = InitialOptimal \<or> why = LoopOptimal \<longrightarrow> opt) \<and>
      (why = NoPlanChange \<or> why = NoImprovements \<longrightarrow> \<not> opt) \<and>
      (why = IterationCap \<longrightarrow> \<not> opt \<and> its = 20))"
proof (intro conjI impI)
  assume "\<not> structurallyInvalid problem"
  then obtain s where s: "solveMiddlemanProblem ts te problem = Inr s"
    using solve_valid by blast
  from solve_plan(3) [OF s] s
  show "\<exists>s. solveMiddlemanProblem ts te problem = Inr s \<and> iterations s \<le> 20"
    by auto
next
  assume s: "solveMiddlemanProblem ts te problem = Inr s"
  from solve_plan(3) [OF s] show "iterations s \<le> 20" by simp
  from solve_plan(5) [OF s] solve_Inr(2) [OF s]
  show "\<exists>why. optimize (profitMatrix s)
                (bp_suppliers (balanceProblem (suppliers problem) (customers problem)))
                (bp_customers (balanceProblem (suppliers problem) (customers problem)))
                (findOptimalTransportation (profitMatrix s)
                   (bp_suppliers (balanceProblem (suppliers problem) (customers problem)))
                   (bp_customers (balanceProblem (suppliers problem) (customers problem)))) =
              (transportationPlan s, iterations s, isOptimal s, why)"
    by auto
next
  assume "shaped (length ss) (length cs) Z \<and> shaped (length ss) (length cs) start \<and>
    optimize Z ss cs start = (plan, its, opt, why)"
  then have "optimize Z ss cs start = (plan, its, opt, why)" by simp
  from optimize_exit [OF this]
  show "its \<le> 20" and "why = InitialOptimal \<or> why = LoopOptimal \<Longrightarrow> opt"
    and "why = NoPlanChange \<or> why = NoImprovements \<Longrightarrow> \<not> opt"
    and "why = IterationCap \<Longrightarrow> \<not> opt" and "why = IterationCap \<Longrightarrow> its = 20"
    by simp_all
qed

lemma optimize_cap:
  "optimize capProfits capSuppliers capCustomers [replicate 21 0] =
     ([replicate 20 1 @ [0]], 20, False, IterationCap)"
  by code_simp

text \<open>The solver on \<open>balancedExample\<close>, and the controller on an empty plan that it fills
  column by column until the cap of 20 stops it.\<close>

theorem solve_terminates_witness:
  "\<not> structurallyInvalid balancedExample \<and>
   (\<exists>s. solveMiddlemanProblem 0 1 balancedExample = Inr s \<and> iterations s \<le> 20) \<and>
   solveMiddlemanProblem 0 1 balancedExample = Inr balancedSolution \<and>
   iterations balancedSolution \<le> 20 \<and>
   shaped (length capSuppliers) (length capCustomers) capProfits \<and>
   shaped (length capSuppliers) (length capCustomers) [replicate 21 0] \<and>
   optimize capProfits capSuppliers capCustomers [replicate 21 0] =
     ([replicate 20 1 @ [0]], 20, False, IterationCap) \<and>
   fst (snd (optimize capProfits capSuppliers capCustomers [replicate 21 0])) \<le> 20 \<and>
   \<not> fst (snd (snd (optimize capProfits capSuppliers capCustomers [replicate 21 0])))"
proof -
  have valid: "\<not> structurallyInvalid balancedExample"
    by (simp add: structurallyInvalid_def balancedExample_def)
  from solve_terminates [where problem = balancedExample and ts = 0 and te = 1] valid
  have a: "\<exists>s. solveMiddlemanProblem 0 1 balancedExample = Inr s \<and> iterations s \<le> 20"
    by blast
  from solve_terminates [where problem = balancedExample and s = balancedSolution
      and ts = 0 and te = 1] solve_balancedExample
  have b: "iterations balancedSolution \<le> 20" by blast
  have sh: "shaped (length capSuppliers) (length capCustomers) capProfits"
    "shaped (length capSuppliers) (length capCustomers) [replicate 21 0]"
    by code_simp+
  from solve_terminates [where Z = capProfits and ss = capSuppliers and cs = capCustomers
      and start = "[replicate 21 0]" and plan = "[replicate 20 1 @ [0]]" and its = 20
      and opt = False and why = IterationCap] optimize_cap sh
  have "(20::nat) \<le> 20 \<and> \<not> False" by blast
  then have c: "fst (snd (optimize capProfits capSuppliers capCustomers [replicate 21 0])) \<le> 20"
    "\<not> fst (snd (snd (optimize capProfits capSuppliers capCustomers [replicate 21 0])))"
    by (simp_all add: optimize_cap)
  from valid a b c sh optimize_cap solve_balancedExample show ?thesis by blast
qed

section \<open>Determinism and the tie-break of the scan\<close>

lemma scanCell_cases:
  "scanCell Z rs rd (i, j) best =
     (if eligible rs rd (i, j) \<and> (case best of None \<Rightarrow> True | Some (bv, bc) \<Rightarrow> Z ! i ! j > bv)
      then Some (Z ! i ! j, i, j) else best)"
  by (auto simp: scanCell_def eligible_def split: option.splits)

lemma fold_scanCell_first_max:
  "fold (scanCell Z rs rd) cs best = Some (v, c) \<Longrightarrow>
   (\<forall>(i, j) \<in> set cs. eligible rs rd (i, j) \<longrightarrow> Z ! i ! j \<le> v) \<and>
   (case best of None \<Rightarrow> True | Some (bv, bc) \<Rightarrow> bv \<le> v) \<and>
   (best = Some (v, c) \<or>
    (\<exists>pre post. cs = pre @ c # post \<and> eligible rs rd c \<and> v = Z ! fst c ! snd c \<and>
       (\<forall>(i, j) \<in> set pre. eligible rs rd (i, j) \<longrightarrow> Z ! i ! j < v) \<and>
       (case best of None \<Rightarrow> True | Some (bv, bc) \<Rightarrow> bv < v)))"
proof (induction cs arbitrary: best)
  case Nil
  then show ?case by (auto split: option.splits)
next
  case (Cons x xs)
  obtain i j where x: "x = (i, j)" by (cases x)
  let ?best' = "scanCell Z rs rd (i, j) best"
  from Cons.prems have run: "fold (scanCell Z rs rd) xs ?best' = Some (v, c)"
    by (simp add: x)
  note ih = Cons.IH [OF run]
  show ?case
  proof (cases "eligible rs rd (i, j) \<and> (case best of None \<Rightarrow> True | Some (bv, bc) \<Rightarrow> Z ! i ! j > bv)")
    case True
    then have b': "?best' = Some (Z ! i ! j, i, j)" by (simp add: scanCell_cases)
    from ih have le: "Z ! i ! j \<le> v" by (simp add: b')
    have all: "\<forall>(i', j') \<in> set (x # xs). eligible rs rd (i', j') \<longrightarrow> Z ! i' ! j' \<le> v"
      using ih le by (auto simp: x)
    have bst: "case best of None \<Rightarrow> True | Some (bv, bc) \<Rightarrow> bv < v"
      using True le by (auto split: option.splits)
    then have bst_le: "case best of None \<Rightarrow> True | Some (bv, bc) \<Rightarrow> bv \<le> v"
      by (auto split: option.splits)
    from ih have "?best' = Some (v, c) \<or>
      (\<exists>pre post. xs = pre @ c # post \<and> eligible rs rd c \<and> v = Z ! fst c ! snd c \<and>
         (\<forall>(i, j) \<in> set pre. eligible rs rd (i, j) \<longrightarrow> Z ! i ! j < v) \<and>
         (case ?best' of None \<Rightarrow> True | Some (bv, bc) \<Rightarrow> bv < v))"
      by blast
    then have "\<exists>pre post. x # xs = pre @ c # post \<and> eligible rs rd c \<and> v = Z ! fst c ! snd c \<and>
         (\<forall>(i, j) \<in> set pre. eligible rs rd (i, j) \<longrightarrow> Z ! i ! j < v)"
    proof
      assume "?best' = Some (v, c)"
      then have "v = Z ! i ! j" "c = (i, j)" by (simp_all add: b')
      with True have "x # xs = [] @ c # xs \<and> eligible rs rd c \<and> v = Z ! fst c ! snd c \<and>
         (\<forall>(i, j) \<in> set []. eligible rs rd (i, j) \<longrightarrow> Z ! i ! j < v)"
        by (simp add: x)
      then show ?thesis by blast
    next
      assume "\<exists>pre post. xs = pre @ c # post \<and> eligible rs rd c \<and> v = Z ! fst c ! snd c \<and>
         (\<forall>(i, j) \<in> set pre. eligible rs rd (i, j) \<longrightarrow> Z ! i ! j < v) \<and>
         (case ?best' of None \<Rightarrow> True | Some (bv, bc) \<Rightarrow> bv < v)"
      then obtain pre post where p: "xs = pre @ c # post" "eligible rs rd c" "v = Z ! fst c ! snd c"
        "\<forall>(i, j) \<in> set pre. eligible rs rd (i, j) \<longrightarrow> Z ! i ! j < v"
        "case ?best' of None \<Rightarrow> True | Some (bv, bc) \<Rightarrow> bv < v"
        by blast
      from p(5) have "Z ! i ! j < v" by (simp add: b')
      with p have "x # xs = (x # pre) @ c # post \<and> eligible rs rd c \<and> v = Z ! fst c ! snd c \<and>
         (\<forall>(i, j) \<in> set (x # pre). eligible rs rd (i, j) \<longrightarrow> Z ! i ! j < v)"
        by (simp add: x)
      then show ?thesis by blast
    qed
    with all bst bst_le show ?thesis by blast
  next
    case False
    then have b': "?best' = best" by (auto simp: scanCell_cases)
    from ih have bst_le: "case best of None \<Rightarrow> True | Some (bv, bc) \<Rightarrow> bv \<le> v"
      by (simp add: b')
    have xle: "eligible rs rd (i, j) \<longrightarrow> (case best of None \<Rightarrow> False | Some (bv, bc) \<Rightarrow> Z ! i ! j \<le> bv)"
      using False by (auto split: option.splits)
    have all: "\<forall>(i', j') \<in> set (x # xs). eligible rs rd (i', j') \<longrightarrow> Z ! i' ! j' \<le> v"
      using ih xle bst_le by (auto simp: x split: option.splits)
    from ih have "best = Some (v, c) \<or>
      (\<exists>pre post. xs = pre @ c # post \<and> eligible rs rd c \<and> v = Z ! fst c ! snd c \<and>
         (\<forall>(i, j) \<in> set pre. eligible rs rd (i, j) \<longrightarrow> Z ! i ! j < v) \<and>
         (case best of None \<Rightarrow> True | Some (bv, bc) \<Rightarrow> bv < v))"
      by (simp add: b')
    then have "best = Some (v, c) \<or>
      (\<exists>pre post. x # xs = pre @ c # post \<and> eligible rs rd c \<and> v = Z ! fst c ! snd c \<and>
         (\<forall>(i, j) \<in> set pre. eligible rs rd (i, j) \<longrightarrow> Z ! i ! j < v) \<and>
         (case best of None \<Rightarrow> True | Some (bv, bc) \<Rightarrow> bv < v))"
    proof
      assume "best = Some (v, c)"
      then show ?thesis by blast
    next
      assume "\<exists>pre post. xs = pre @ c # post \<and> eligible rs rd c \<and> v = Z ! fst c ! snd c \<and>
         (\<forall>(i, j) \<in> set pre. eligible rs rd (i, j) \<longrightarrow> Z ! i ! j < v) \<and>
         (case best of None \<Rightarrow> True | Some (bv, bc) \<Rightarrow> bv < v)"
      then obtain pre post where p: "xs = pre @ c # post" "eligible rs rd c" "v = Z ! fst c ! snd c"
        "\<forall>(i, j) \<in> set pre. eligible rs rd (i, j) \<longrightarrow> Z ! i ! j < v"
        "case best of None \<Rightarrow> True | Some (bv, bc) \<Rightarrow> bv < v"
        by blast
      from xle p(5) have "eligible rs rd (i, j) \<longrightarrow> Z ! i ! j < v"
        by (auto split: option.splits)
      with p have "x # xs = (x # pre) @ c # post \<and> eligible rs rd c \<and> v = Z ! fst c ! snd c \<and>
         (\<forall>(i, j) \<in> set (x # pre). eligible rs rd (i, j) \<longrightarrow> Z ! i ! j < v) \<and>
         (case best of None \<Rightarrow> True | Some (bv, bc) \<Rightarrow> bv < v)"
        by (simp add: x)
      then show ?thesis by blast
    qed
    with all bst_le show ?thesis by blast
  qed
qed

lemma cells_Suc: "cells (Suc m) n = cells m n @ map (\<lambda>j. (m, j)) [0..<n]"
  by (simp add: cells_def)

lemma cells_sorted: "sorted_wrt rowMajorBefore (cells m n)"
proof (induction m)
  case 0
  then show ?case by (simp add: cells_def)
next
  case (Suc m)
  have "sorted_wrt rowMajorBefore (map (\<lambda>j. (m, j)) [0..<n])"
    by (simp add: sorted_wrt_map rowMajorBefore_def strict_sorted_iff [symmetric])
  moreover have "\<forall>x \<in> set (cells m n). \<forall>y \<in> set (map (\<lambda>j. (m, j)) [0..<n]). rowMajorBefore x y"
    by (auto simp: set_cells rowMajorBefore_def)
  ultimately show ?case
    using Suc by (simp add: cells_Suc sorted_wrt_append)
qed

lemma findMaxCell_first_max:
  assumes "findMaxCell Z rs rd = Some (v, i, j)"
    and "i' < length rs" "j' < length rd" "rs ! i' > 0" "rd ! j' > 0"
  shows "Z ! i' ! j' \<le> v \<and> (Z ! i' ! j' = v \<longrightarrow> i < i' \<or> (i = i' \<and> j \<le> j'))"
proof -
  let ?cs = "cells (length rs) (length rd)"
  have el: "eligible rs rd (i', j')" using assms(4,5) by (simp add: eligible_def)
  have mem: "(i', j') \<in> set ?cs" using assms(2,3) by (simp add: set_cells)
  from fold_scanCell_first_max [OF assms(1) [unfolded findMaxCell_def]]
  have all: "\<forall>(a, b) \<in> set ?cs. eligible rs rd (a, b) \<longrightarrow> Z ! a ! b \<le> v"
    and "\<exists>pre post. ?cs = pre @ (i, j) # post \<and>
          (\<forall>(a, b) \<in> set pre. eligible rs rd (a, b) \<longrightarrow> Z ! a ! b < v)"
    by auto
  then obtain pre post where split: "?cs = pre @ (i, j) # post"
    and pre: "\<forall>(a, b) \<in> set pre. eligible rs rd (a, b) \<longrightarrow> Z ! a ! b < v"
    by blast
  have le: "Z ! i' ! j' \<le> v" using all mem el by auto
  have "Z ! i' ! j' = v \<longrightarrow> i < i' \<or> (i = i' \<and> j \<le> j')"
  proof
    assume eq: "Z ! i' ! j' = v"
    with pre el have "(i', j') \<notin> set pre" by auto
    with mem split have "(i', j') = (i, j) \<or> (i', j') \<in> set post" by auto
    moreover have "\<forall>y \<in> set post. rowMajorBefore (i, j) y"
      using cells_sorted [of "length rs" "length rd"] by (simp add: split sorted_wrt_append)
    ultimately show "i < i' \<or> (i = i' \<and> j \<le> j')"
      by (auto simp: rowMajorBefore_def)
  qed
  with le show ?thesis by simp
qed


text \<open>
  Claim C4, as the code has it. Two runs of the solver on the same problem return
  results that agree in every field but \<open>executionTime\<close>, which is the difference of the
  two clock readings of the run; the plan, the flags, the totals, the routes and the
  iteration count are functions of the problem. The scan of the initial builder returns
  a cell with supply and demand left whose unit profit is the largest among such cells,
  and among the cells of that profit the first in row-major order (lowest \<open>i\<close>, then
  lowest \<open>j\<close>); it returns none only if no cell has supply and demand left.
\<close>

theorem solve_deterministic_up_to_time:
  "withoutTime (solveMiddlemanProblem ts te problem) =
     withoutTime (solveMiddlemanProblem ts' te' problem) \<and>
   (solveMiddlemanProblem ts te problem = Inr s \<longrightarrow> executionTime s = te - ts) \<and>
   (shaped (length rs) (length rd) Z \<and> findMaxCell Z rs rd = Some (v, i, j) \<longrightarrow>
      i < length rs \<and> j < length rd \<and> rs ! i > 0 \<and> rd ! j > 0 \<and> v = Z ! i ! j \<and>
      (\<forall>i' < length rs. \<forall>j' < length rd. rs ! i' > 0 \<and> rd ! j' > 0 \<longrightarrow>
          Z ! i' ! j' \<le> v \<and> (Z ! i' ! j' = v \<longrightarrow> i < i' \<or> (i = i' \<and> j \<le> j')))) \<and>
   (shaped (length rs) (length rd) Z \<and> findMaxCell Z rs rd = None \<longrightarrow>
      (\<forall>i' < length rs. \<forall>j' < length rd. \<not> (rs ! i' > 0 \<and> rd ! j' > 0)))"
proof (intro conjI impI allI)
  show "withoutTime (solveMiddlemanProblem ts te problem) =
     withoutTime (solveMiddlemanProblem ts' te' problem)"
    by (simp add: solveMiddlemanProblem_def withoutTime_def Let_def split: prod.splits)
next
  assume "solveMiddlemanProblem ts te problem = Inr s"
  then show "executionTime s = te - ts" by (rule solve_Inr)
next
  assume "shaped (length rs) (length rd) Z \<and> findMaxCell Z rs rd = Some (v, i, j)"
  then have h: "findMaxCell Z rs rd = Some (v, i, j)" by simp
  from findMaxCell_Some [OF h]
  show "i < length rs" "j < length rd" "rs ! i > 0" "rd ! j > 0" "v = Z ! i ! j"
    by simp_all
  fix i' j' assume "i' < length rs" "j' < length rd" "rs ! i' > 0 \<and> rd ! j' > 0"
  with findMaxCell_first_max [OF h, of i' j']
  show "Z ! i' ! j' \<le> v" and "Z ! i' ! j' = v \<Longrightarrow> i < i' \<or> (i = i' \<and> j \<le> j')"
    by simp_all
next
  fix i' j'
  assume "shaped (length rs) (length rd) Z \<and> findMaxCell Z rs rd = None"
    and "i' < length rs" "j' < length rd"
  then have "findMaxCell Z rs rd = None" "i' < length rs" "j' < length rd" by simp_all
  then show "\<not> (rs ! i' > 0 \<and> rd ! j' > 0)" by (rule findMaxCell_None)
qed

text \<open>A scan in which all four cells tie: cell \<open>(0, 0)\<close> is returned. And the time
  reported for the worked example.\<close>

theorem solve_deterministic_up_to_time_witness:
  "findMaxCell [[5, 5], [5, 5]] [1, 1] [1, 1] = Some (5, 0, 0) \<and>
   [[5, 5], [5, 5 :: real]] ! 1 ! 1 \<le> 5 \<and> ((0::nat) < 1 \<or> ((0::nat) = 1 \<and> (0::nat) \<le> 1)) \<and>
   solveMiddlemanProblem 0 1 smallExample = Inr smallSolution \<and>
   executionTime smallSolution = 1 - 0"
proof -
  have cell: "findMaxCell [[5, 5], [5, 5]] [1, 1] [1, 1] = Some (5, 0, 0)"
    by code_simp
  have sh: "shaped (length [1, 1 :: real]) (length [1, 1 :: real]) [[5, 5], [5, 5 :: real]]"
    by (simp add: shaped_def)
  from solve_deterministic_up_to_time [where Z = "[[5, 5], [5, 5]]" and rs = "[1, 1]"
      and rd = "[1, 1]" and v = 5 and i = 0 and j = 0] cell sh
  have "\<forall>i' < length [1, 1 :: real]. \<forall>j' < length [1, 1 :: real].
          [1, 1 :: real] ! i' > 0 \<and> [1, 1 :: real] ! j' > 0 \<longrightarrow>
          [[5, 5], [5, 5 :: real]] ! i' ! j' \<le> 5 \<and>
          ([[5, 5], [5, 5 :: real]] ! i' ! j' = 5 \<longrightarrow> 0 < i' \<or> (0 = i' \<and> 0 \<le> j'))"
    by blast
  then have "(1::nat) < length [1, 1 :: real] \<longrightarrow> (1::nat) < length [1, 1 :: real] \<longrightarrow>
          [1, 1 :: real] ! 1 > 0 \<and> [1, 1 :: real] ! 1 > 0 \<longrightarrow>
          [[5, 5], [5, 5 :: real]] ! 1 ! 1 \<le> 5 \<and>
          ([[5, 5], [5, 5 :: real]] ! 1 ! 1 = 5 \<longrightarrow> (0::nat) < 1 \<or> ((0::nat) = 1 \<and> (0::nat) \<le> 1))"
    by blast
  then have a: "[[5, 5], [5, 5 :: real]] ! 1 ! 1 \<le> 5 \<and>
      ((0::nat) < 1 \<or> ((0::nat) = 1 \<and> (0::nat) \<le> 1))"
    by simp
  from solve_deterministic_up_to_time [where problem = smallExample and s = smallSolution
      and ts = 0 and te = 1] solve_smallExample
  have b: "executionTime smallSolution = 1 - 0" by blast
  from cell a b solve_smallExample show ?thesis by blast
qed

text \<open>
  Claim C4 as stated fails for the field \<open>executionTime\<close>: two runs on the worked example
  whose clocks read 1 and 2 on return give solutions that differ.
\<close>

theorem execution_time_differs:
  "solveMiddlemanProblem 0 1 smallExample = Inr smallSolution \<and>
   solveMiddlemanProblem 0 2 smallExample = Inr (smallSolution\<lparr>executionTime := 2\<rparr>) \<and>
   solveMiddlemanProblem 0 1 smallExample \<noteq> solveMiddlemanProblem 0 2 smallExample"
proof -
  have two: "solveMiddlemanProblem 0 2 smallExample = Inr (smallSolution\<lparr>executionTime := 2\<rparr>)"
    by code_simp
  have "smallSolution \<noteq> smallSolution\<lparr>executionTime := 2\<rparr>"
    by (simp add: smallSolution_def)
  with two solve_smallExample show ?thesis by simp
qed

section \<open>The profit of an improvement step\<close>














section \<open>Failing fast, and the reads of a run\<close>

text \<open>
  Claim C10. On a structurally invalid problem (no suppliers, no customers, a supplier
  whose supply is not positive, a customer whose demand is not positive, a negative
  purchase cost or a negative selling price) the solver throws: its result is the error
  whose message is \<open>Invalid problem: \<close> followed by the messages of
  \<open>validateProblem\<close>, joined by commas. That result is fixed by the validation alone,
  the first step; balancing, the matrices and the loop come after it and are not part
  of it, and nothing is tried a second time. The message names each violated condition
  and the supplier or customer that violates it. On every other problem the solver
  returns a solution, and in that run the profit matrix and the plan have one row per
  balanced supplier and one entry per balanced customer and every improvement
  opportunity names a cell of theirs, so that no read of the run is out of range.
\<close>

theorem solve_fails_fast:
  "(structurallyInvalid problem \<longrightarrow>
      errors (validateProblem problem) \<noteq> [] \<and>
      solveMiddlemanProblem ts te problem =
        Inl (Error (''Invalid problem: '' @ joinWith '', '' (errors (validateProblem problem))))) \<and>
   (\<not> structurallyInvalid problem \<longrightarrow> (\<exists>s. solveMiddlemanProblem ts te problem = Inr s)) \<and>
   (solveMiddlemanProblem ts te problem = Inr s \<longrightarrow>
      (let bss = bp_suppliers (balanceProblem (suppliers problem) (customers problem));
           bcs = bp_customers (balanceProblem (suppliers problem) (customers problem))
       in shaped (length bss) (length bcs) (profitMatrix s) \<and>
          shaped (length bss) (length bcs) (transportationPlan s) \<and>
          (\<forall>opp \<in> set (improvements
                          (checkOptimality (profitMatrix s) (transportationPlan s) bss bcs)).
              supplierIndex opp < length bss \<and> customerIndex opp < length bcs))) \<and>
   (suppliers problem = [] \<longrightarrow>
      ''Problem must have at least one supplier'' \<in> set (errors (validateProblem problem))) \<and>
   (customers problem = [] \<longrightarrow>
      ''Problem must have at least one customer'' \<in> set (errors (validateProblem problem))) \<and>
   (\<forall>s \<in> set (suppliers problem).
      (supplier_supply s \<le> 0 \<longrightarrow>
         ''Supplier '' @ supplier_name s @ '' must have positive supply''
           \<in> set (errors (validateProblem problem))) \<and>
      (purchaseCost s < 0 \<longrightarrow>
         ''Supplier '' @ supplier_name s @ '' cannot have negative purchase cost''
           \<in> set (errors (validateProblem problem)))) \<and>
   (\<forall>c \<in> set (customers problem).
      (demand c \<le> 0 \<longrightarrow>
         ''Customer '' @ customer_name c @ '' must have positive demand''
           \<in> set (errors (validateProblem problem))) \<and>
      (sellingPrice c < 0 \<longrightarrow>
         ''Customer '' @ customer_name c @ '' cannot have negative selling price''
           \<in> set (errors (validateProblem problem))))"
proof (intro conjI impI ballI)
  assume "structurallyInvalid problem"
  then show "errors (validateProblem problem) \<noteq> []"
    by (simp add: validateProblem_errors_Nil validateProblem_isValid)
next
  assume "structurallyInvalid problem"
  then show "solveMiddlemanProblem ts te problem =
        Inl (Error (''Invalid problem: '' @ joinWith '', '' (errors (validateProblem problem))))"
    by (rule solve_invalid)
next
  assume "\<not> structurallyInvalid problem"
  then show "\<exists>s. solveMiddlemanProblem ts te problem = Inr s"
    by (rule solve_valid)
next
  assume h: "solveMiddlemanProblem ts te problem = Inr s"
  from solve_Inr(2) [OF h] solve_plan(1,2) [OF h]
  show "let bss = bp_suppliers (balanceProblem (suppliers problem) (customers problem));
           bcs = bp_customers (balanceProblem (suppliers problem) (customers problem))
       in shaped (length bss) (length bcs) (profitMatrix s) \<and>
          shaped (length bss) (length bcs) (transportationPlan s) \<and>
          (\<forall>opp \<in> set (improvements
                          (checkOptimality (profitMatrix s) (transportationPlan s) bss bcs)).
              supplierIndex opp < length bss \<and> customerIndex opp < length bcs)"
    by (simp add: Let_def calculateProfitMatrix_shape saturated_def checkOptimality_indices)
next
  assume "suppliers problem = []"
  then show "''Problem must have at least one supplier'' \<in> set (errors (validateProblem problem))"
    by (simp add: validateProblem_def Let_def)
next
  assume "customers problem = []"
  then show "''Problem must have at least one customer'' \<in> set (errors (validateProblem problem))"
    by (simp add: validateProblem_def Let_def)
next
  fix s assume "s \<in> set (suppliers problem)" "supplier_supply s \<le> 0"
  then show "''Supplier '' @ supplier_name s @ '' must have positive supply''
           \<in> set (errors (validateProblem problem))"
    by (force simp: validateProblem_def Let_def supplierErrors_def)
next
  fix s assume "s \<in> set (suppliers problem)" "purchaseCost s < 0"
  then show "''Supplier '' @ supplier_name s @ '' cannot have negative purchase cost''
           \<in> set (errors (validateProblem problem))"
    by (force simp: validateProblem_def Let_def supplierErrors_def)
next
  fix c assume "c \<in> set (customers problem)" "demand c \<le> 0"
  then show "''Customer '' @ customer_name c @ '' must have positive demand''
           \<in> set (errors (validateProblem problem))"
    by (force simp: validateProblem_def Let_def customerErrors_def)
next
  fix c assume "c \<in> set (customers problem)" "sellingPrice c < 0"
  then show "''Customer '' @ customer_name c @ '' cannot have negative selling price''
           \<in> set (errors (validateProblem problem))"
    by (force simp: validateProblem_def Let_def customerErrors_def)
qed

text \<open>A refused problem with its message, and the worked example, which is solved.\<close>

theorem solve_fails_fast_witness:
  "structurallyInvalid invalidExample \<and>
   solveMiddlemanProblem 0 1 invalidExample =
     Inl (Error ''Invalid problem: Supplier Idle must have positive supply, Customer Shop cannot have negative selling price'') \<and>
   \<not> structurallyInvalid smallExample \<and>
   (\<exists>s. solveMiddlemanProblem 0 1 smallExample = Inr s) \<and>
   solveMiddlemanProblem 0 1 smallExample = Inr smallSolution \<and>
   shaped 2 3 (profitMatrix smallSolution) \<and> shaped 2 3 (transportationPlan smallSolution)"
proof -
  have inv: "structurallyInvalid invalidExample"
    by (simp add: structurallyInvalid_def invalidExample_def)
  have val: "\<not> structurallyInvalid smallExample"
    by (simp add: structurallyInvalid_def smallExample_def)
  have msg: "errors (validateProblem invalidExample) =
     [''Supplier Idle must have positive supply'', ''Customer Shop cannot have negative selling price'']"
    by (simp add: validateProblem_def Let_def invalidExample_def supplierErrors_def customerErrors_def)
  from solve_fails_fast [where problem = smallExample and s = smallSolution
      and ts = 0 and te = 1] solve_smallExample
  have "let bss = bp_suppliers (balanceProblem (suppliers smallExample) (customers smallExample));
            bcs = bp_customers (balanceProblem (suppliers smallExample) (customers smallExample))
        in shaped (length bss) (length bcs) (profitMatrix smallSolution) \<and>
           shaped (length bss) (length bcs) (transportationPlan smallSolution) \<and>
           (\<forall>opp \<in> set (improvements
                           (checkOptimality (profitMatrix smallSolution)
                              (transportationPlan smallSolution) bss bcs)).
               supplierIndex opp < length bss \<and> customerIndex opp < length bcs)"
    by blast
  then have "shaped (length (suppliers smallExample))
               (length (customers smallExample @ [fictitiousCustomerOf 20]))
               (profitMatrix smallSolution) \<and>
             shaped (length (suppliers smallExample))
               (length (customers smallExample @ [fictitiousCustomerOf 20]))
               (transportationPlan smallSolution)"
    unfolding Let_def balance_smallExample BalancedProblem.select_convs by (elim conjE) (intro conjI)
  moreover have "length (suppliers smallExample) = 2"
    "length (customers smallExample @ [fictitiousCustomerOf 20]) = 3"
    by (simp_all add: smallExample_def)
  ultimately have sh: "shaped 2 3 (profitMatrix smallSolution)"
    "shaped 2 3 (transportationPlan smallSolution)"
    by (simp_all only:)
  from solve_fails_fast [where problem = invalidExample and ts = 0 and te = 1] inv
  have bad: "solveMiddlemanProblem 0 1 invalidExample =
     Inl (Error (''Invalid problem: '' @ joinWith '', '' (errors (validateProblem invalidExample))))"
    by blast
  from solve_fails_fast [where problem = smallExample and ts = 0 and te = 1] val
  have good: "\<exists>s. solveMiddlemanProblem 0 1 smallExample = Inr s"
    by blast
  from bad have "solveMiddlemanProblem 0 1 invalidExample =
     Inl (Error ''Invalid problem: Supplier Idle must have positive supply, Customer Shop cannot have negative selling price'')"
    by (simp add: msg)
  with inv val good sh solve_smallExample show ?thesis by blast
qed

end
